theory Spec2Isabelle
  imports Complex_Main
begin

text \<open>
  A shallow embedding of the Chessforces game-state engine: the chess rules
  (\<^verbatim>\<open>isValidMove\<close>, \<^verbatim>\<open>isPathClear\<close>, \<^verbatim>\<open>makeMove\<close>, \<^verbatim>\<open>getValidMoves\<close>), the session storage
  (\<^verbatim>\<open>createGame\<close>, \<^verbatim>\<open>getGame\<close>, \<^verbatim>\<open>updateGame\<close>, \<^verbatim>\<open>joinGame\<close>) and the route handlers that
  call them, followed by the properties its specification states.
\<close>

section \<open>Rules engine (src/lib/redis.ts, the chess module)\<close>

subsection \<open>Data model\<close>

text \<open>
  \<^verbatim>\<open>PieceType = 'p' | 'r' | 'n' | 'b' | 'q' | 'k'\<close>, \<^verbatim>\<open>Color = 'w' | 'b'\<close>,
  \<^verbatim>\<open>Piece = { type; color } | null\<close>, \<^verbatim>\<open>Board = Piece[][]\<close>,
  \<^verbatim>\<open>Position = { row: number; col: number }\<close>.
  A position has integer coordinates: a \<^verbatim>\<open>number\<close> with a fractional part is not a
  position of this model (indexing an array with it yields \<^verbatim>\<open>undefined\<close>, and the
  arithmetic on it is floating point). A board is an array of plain row arrays, with no
  property besides their elements. A square of the board holds \<open>None\<close> for
  \<^verbatim>\<open>null\<close>; the code only ever tests a square for truthiness, so the value
  \<^verbatim>\<open>undefined\<close> that JavaScript yields for a column outside a row array is \<open>None\<close> as well.
\<close>

datatype PieceType = Pawn | Rook | Knight | Bishop | Queen | King

datatype Color = White | Black

record Piece =
  ptype :: PieceType
  color :: Color

type_synonym Board = "Piece option list list"

record Position =
  row :: int
  col :: int

text \<open>Reading \<^verbatim>\<open>x[i]\<close> where \<^verbatim>\<open>x\<close> is \<^verbatim>\<open>undefined\<close> throws a TypeError.\<close>

datatype error = TypeError

text \<open>
  \<^verbatim>\<open>board[r][c]\<close>: a row index outside the outer array gives \<^verbatim>\<open>undefined\<close>, and indexing
  that throws; a column outside the row array gives \<^verbatim>\<open>undefined\<close>, which is falsy.
\<close>

definition cell :: "Board \<Rightarrow> int \<Rightarrow> int \<Rightarrow> error + Piece option" where
  "cell board r c =
     (if 0 \<le> r \<and> r < int (length board) then
        (if 0 \<le> c \<and> c < int (length (board ! nat r))
         then Inr (board ! nat r ! nat c)
         else Inr None)
      else Inl TypeError)"

text \<open>The object literal \<^verbatim>\<open>{ type: t, color: c }\<close>.\<close>

definition mk :: "PieceType \<Rightarrow> Color \<Rightarrow> Piece option" where
  "mk t c = Some \<lparr>ptype = t, color = c\<rparr>"

definition initialBoard :: Board where
  "initialBoard =
    [[mk Rook Black, mk Knight Black, mk Bishop Black, mk Queen Black,
      mk King Black, mk Bishop Black, mk Knight Black, mk Rook Black],
     [mk Pawn Black, mk Pawn Black, mk Pawn Black, mk Pawn Black,
      mk Pawn Black, mk Pawn Black, mk Pawn Black, mk Pawn Black],
     [None, None, None, None, None, None, None, None],
     [None, None, None, None, None, None, None, None],
     [None, None, None, None, None, None, None, None],
     [None, None, None, None, None, None, None, None],
     [mk Pawn White, mk Pawn White, mk Pawn White, mk Pawn White,
      mk Pawn White, mk Pawn White, mk Pawn White, mk Pawn White],
     [mk Rook White, mk Knight White, mk Bishop White, mk Queen White,
      mk King White, mk Bishop White, mk Knight White, mk Rook White]]"

subsection \<open>isPathClear\<close>

text \<open>
  The \<^verbatim>\<open>while\<close> loop of \<^verbatim>\<open>isPathClear\<close>. Nothing in the loop itself bounds the number
  of iterations (on a rank, columns outside the row read as \<^verbatim>\<open>undefined\<close> and the walk
  goes on), so the loop is a partial function: \<open>None\<close> is "does not return".
\<close>

partial_function (option) isPathClear_loop ::
  "Board \<Rightarrow> Position \<Rightarrow> int \<Rightarrow> int \<Rightarrow> int \<Rightarrow> int \<Rightarrow> (error + bool) option" where
  "isPathClear_loop board to rowStep colStep r c =
     (if r \<noteq> row to \<or> c \<noteq> col to then
        (case cell board r c of
           Inl e \<Rightarrow> Some (Inl e)
         | Inr sq \<Rightarrow>
             (case sq of
                Some p \<Rightarrow> Some (Inr False)
              | None \<Rightarrow> isPathClear_loop board to rowStep colStep (r + rowStep) (c + colStep)))
      else Some (Inr True))"

declare isPathClear_loop.simps [code]

definition isPathClear :: "Board \<Rightarrow> Position \<Rightarrow> Position \<Rightarrow> (error + bool) option" where
  "isPathClear board from to =
     (let rowStep = (if row to > row from then 1 else if row to < row from then -1 else 0);
          colStep = (if col to > col from then 1 else if col to < col from then -1 else 0)
      in isPathClear_loop board to rowStep colStep (row from + rowStep) (col from + colStep))"

subsection \<open>isValidMove\<close>

text \<open>The pawn case of the \<^verbatim>\<open>switch\<close>; \<open>target\<close> is the content of the destination.\<close>

definition pawnCase ::
  "Board \<Rightarrow> Position \<Rightarrow> Piece \<Rightarrow> Piece option \<Rightarrow> int \<Rightarrow> int \<Rightarrow> (error + bool) option" where
  "pawnCase board from piece target rowDiff colDiff =
     (let direction = (if color piece = White then -1 else 1);
          startRow = (if color piece = White then 6 else 1);
          capture = Some (Inr (\<bar>colDiff\<bar> = 1 \<and> rowDiff = direction \<and> target \<noteq> None))
      in if colDiff = 0 \<and> target = None then
           (if rowDiff = direction then Some (Inr True)
            else if row from = startRow \<and> rowDiff = 2 * direction then
              (case cell board (row from + direction) (col from) of
                 Inl e \<Rightarrow> Some (Inl e)
               | Inr mid \<Rightarrow> (if mid = None then Some (Inr True) else capture))
            else capture)
         else capture)"

definition isValidMove ::
  "Board \<Rightarrow> Position \<Rightarrow> Position \<Rightarrow> Color \<Rightarrow> (error + bool) option" where
  "isValidMove board from to turn =
     (case cell board (row from) (col from) of
        Inl e \<Rightarrow> Some (Inl e)
      | Inr None \<Rightarrow> Some (Inr False)
      | Inr (Some piece) \<Rightarrow>
          if color piece \<noteq> turn then Some (Inr False)
          else if row to < 0 \<or> row to > 7 \<or> col to < 0 \<or> col to > 7 then Some (Inr False)
          else
            (case cell board (row to) (col to) of
               Inl e \<Rightarrow> Some (Inl e)
             | Inr target \<Rightarrow>
                 if (case target of Some t \<Rightarrow> color t = color piece | None \<Rightarrow> False)
                 then Some (Inr False)
                 else
                   (let rowDiff = row to - row from;
                        colDiff = col to - col from
                    in case ptype piece of
                         Pawn \<Rightarrow> pawnCase board from piece target rowDiff colDiff
                       | Rook \<Rightarrow>
                           if rowDiff = 0 \<or> colDiff = 0 then isPathClear board from to
                           else Some (Inr False)
                       | Knight \<Rightarrow>
                           Some (Inr ((\<bar>rowDiff\<bar> = 2 \<and> \<bar>colDiff\<bar> = 1) \<or>
                                      (\<bar>rowDiff\<bar> = 1 \<and> \<bar>colDiff\<bar> = 2)))
                       | Bishop \<Rightarrow>
                           if \<bar>rowDiff\<bar> = \<bar>colDiff\<bar> then isPathClear board from to
                           else Some (Inr False)
                       | Queen \<Rightarrow>
                           if rowDiff = 0 \<or> colDiff = 0 \<or> \<bar>rowDiff\<bar> = \<bar>colDiff\<bar>
                           then isPathClear board from to
                           else Some (Inr False)
                       | King \<Rightarrow> Some (Inr (\<bar>rowDiff\<bar> \<le> 1 \<and> \<bar>colDiff\<bar> \<le> 1)))))"

subsection \<open>makeMove\<close>

text \<open>
  \<^verbatim>\<open>row[i] = v\<close> on a row array: an index of the array is overwritten; an array index at
  or beyond the length (array indices end at \<open>2\<^sup>3\<^sup>2 - 2\<close>) extends the array, and the holes
  read as \<^verbatim>\<open>undefined\<close>; any other key, a negative one for instance, sets a property that
  is not an element, so the elements stay as they are. The list carries the elements
  only: a row with such a property is not a row of this model.
\<close>

definition js_set :: "'a option list \<Rightarrow> int \<Rightarrow> 'a option \<Rightarrow> 'a option list" where
  "js_set xs i v =
     (if 0 \<le> i \<and> i < int (length xs) then xs[nat i := v]
      else if int (length xs) \<le> i \<and> i \<le> 4294967294
      then xs @ replicate (nat i - length xs) None @ [v]
      else xs)"

text \<open>
  \<^verbatim>\<open>makeMove\<close> on board values. \<^verbatim>\<open>newBoard[to.row]\<close> or \<^verbatim>\<open>newBoard[from.row]\<close> being
  \<^verbatim>\<open>undefined\<close> throws.
\<close>

definition makeMove :: "Board \<Rightarrow> Position \<Rightarrow> Position \<Rightarrow> error + Board" where
  "makeMove board from to =
     (let newBoard = map (\<lambda>r. r) board in
      if \<not> (0 \<le> row to \<and> row to < int (length newBoard)) then Inl TypeError
      else
        (case cell newBoard (row from) (col from) of
           Inl e \<Rightarrow> Inl e
         | Inr piece \<Rightarrow>
             (let b1 = newBoard[nat (row to) := js_set (newBoard ! nat (row to)) (col to) piece];
                  b2 = b1[nat (row from) := js_set (b1 ! nat (row from)) (col from) None]
              in Inr b2)))"

text \<open>
  The same function over an explicit heap of row arrays, to observe which arrays it
  writes: a board is the list of the addresses of its rows, \<^verbatim>\<open>board.map(row => [...row])\<close>
  allocates one fresh array per row, and the two assignments write into the fresh arrays.
\<close>

type_synonym heap = "Piece option list list"

type_synonym BoardRef = "nat list"

definition deref :: "heap \<Rightarrow> BoardRef \<Rightarrow> Board" where
  "deref h rows = map (\<lambda>a. h ! a) rows"

definition valid_ref :: "heap \<Rightarrow> BoardRef \<Rightarrow> bool" where
  "valid_ref h rows = list_all (\<lambda>a. a < length h) rows"

definition makeMove_heap ::
  "heap \<Rightarrow> BoardRef \<Rightarrow> Position \<Rightarrow> Position \<Rightarrow> error + (heap \<times> BoardRef)" where
  "makeMove_heap h board from to =
     (let h0 = h @ map (\<lambda>a. h ! a) board;
          newBoard = [length h ..< length h + length board] in
      if \<not> (0 \<le> row to \<and> row to < int (length newBoard)) then Inl TypeError
      else
        (case cell (deref h0 newBoard) (row from) (col from) of
           Inl e \<Rightarrow> Inl e
         | Inr piece \<Rightarrow>
             (let ta = newBoard ! nat (row to);
                  h1 = h0[ta := js_set (h0 ! ta) (col to) piece];
                  fa = newBoard ! nat (row from);
                  h2 = h1[fa := js_set (h1 ! fa) (col from) None]
              in Inr (h2, newBoard))))"

subsection \<open>getValidMoves\<close>

text \<open>The 64 squares in the order of the two nested \<^verbatim>\<open>for\<close> loops.\<close>

definition squares :: "Position list" where
  "squares = concat (map (\<lambda>r. map (\<lambda>c. \<lparr>row = int r, col = int c\<rparr>) [0..<8]) [0..<8])"

fun getValidMoves_loop ::
  "Board \<Rightarrow> Position \<Rightarrow> Color \<Rightarrow> Position list \<Rightarrow> Position list
     \<Rightarrow> (error + Position list) option" where
  "getValidMoves_loop board from turn [] validMoves = Some (Inr validMoves)"
| "getValidMoves_loop board from turn (to # rest) validMoves =
     (case isValidMove board from to turn of
        None \<Rightarrow> None
      | Some (Inl e) \<Rightarrow> Some (Inl e)
      | Some (Inr ok) \<Rightarrow>
          getValidMoves_loop board from turn rest
            (if ok then validMoves @ [to] else validMoves))"

definition getValidMoves ::
  "Board \<Rightarrow> Position \<Rightarrow> Color \<Rightarrow> (error + Position list) option" where
  "getValidMoves board from turn = getValidMoves_loop board from turn squares []"

section \<open>Session manager (src/lib/db.ts and the route handlers of src/unnamed/part_000)\<close>

subsection \<open>Values of the request body\<close>

text \<open>
  The route handler destructures the parsed JSON body and passes \<^verbatim>\<open>playerId\<close> and
  \<^verbatim>\<open>username\<close> on without a check of their type, so a player identifier is any value JSON
  can carry: \<^verbatim>\<open>null\<close>, a boolean, a number, a string, an array or an object; a field the
  body does not have is \<^verbatim>\<open>undefined\<close>. A number is a finite one and is given by its value. Arrays and
  objects are one value \<open>Obj\<close>: the code only compares them and tests their truthiness.
\<close>

datatype jsval = Undefined | Null | Bool bool | Num rat | Str string | Obj

text \<open>
  \<^verbatim>\<open>a === b\<close>: equal primitives; an array or object of one request is never the same
  object as one of another request or one read back from the storage.
\<close>

definition strict_eq :: "jsval \<Rightarrow> jsval \<Rightarrow> bool" where
  "strict_eq a b = (a = b \<and> a \<noteq> Obj)"

text \<open>\<^verbatim>\<open>!v\<close> is \<open>\<not> truthy v\<close>: the falsy values are \<^verbatim>\<open>undefined\<close>, \<^verbatim>\<open>null\<close>, \<^verbatim>\<open>false\<close>, \<^verbatim>\<open>0\<close> and \<^verbatim>\<open>""\<close>.\<close>

definition truthy :: "jsval \<Rightarrow> bool" where
  "truthy v = (v \<noteq> Undefined \<and> v \<noteq> Null \<and> v \<noteq> Bool False \<and> v \<noteq> Num 0 \<and> v \<noteq> Str [])"

subsection \<open>Session state and storage\<close>

datatype Status = Waiting | Active | Finished

datatype Winner = Won Color | Draw

record 'a Slots =
  white :: 'a
  black :: 'a

text \<open>
  \<^verbatim>\<open>players\<close> is declared \<^verbatim>\<open>string | null\<close> per slot and holds whatever \<^verbatim>\<open>joinGame\<close> was
  given; \<^verbatim>\<open>playerNames\<close> holds \<^verbatim>\<open>null\<close> or the user name, which the handler has checked
  to be a string.
\<close>

record GameState =
  game_id :: string
  board :: Board
  turn :: Color
  players :: "jsval Slots"
  playerNames :: "string option Slots"
  status :: Status
  winner :: "Winner option"
  lastMove :: int

text \<open>
  The storage is a map from session identifiers to sessions: \<^verbatim>\<open>memoryGames\<close>, or the Redis
  keys under \<^verbatim>\<open>GAME_PREFIX\<close> (same \<^verbatim>\<open>get\<close>/\<^verbatim>\<open>set\<close> behaviour; expiry is left to Redis and
  is not modelled). \<^verbatim>\<open>Date.now()\<close> is the parameter \<open>now\<close>.
\<close>

type_synonym store = "string \<rightharpoonup> GameState"

definition createGame :: "store \<Rightarrow> string \<Rightarrow> int \<Rightarrow> store \<times> GameState" where
  "createGame st gameId now =
     (let game = \<lparr>game_id = gameId, board = initialBoard, turn = White,
                  players = \<lparr>white = Null, black = Null\<rparr>,
                  playerNames = \<lparr>white = None, black = None\<rparr>,
                  status = Waiting, winner = None, lastMove = now\<rparr>
      in (st(gameId \<mapsto> game), game))"

definition getGame :: "store \<Rightarrow> string \<Rightarrow> GameState option" where
  "getGame st gameId = st gameId"

text \<open>\<^verbatim>\<open>Partial<GameState>\<close>: each field present or absent.\<close>

record Updates =
  u_id :: "string option"
  u_board :: "Board option"
  u_turn :: "Color option"
  u_players :: "jsval Slots option"
  u_playerNames :: "string option Slots option"
  u_status :: "Status option"
  u_winner :: "Winner option option"
  u_lastMove :: "int option"

definition no_updates :: Updates where
  "no_updates = \<lparr>u_id = None, u_board = None, u_turn = None, u_players = None,
                 u_playerNames = None, u_status = None, u_winner = None, u_lastMove = None\<rparr>"

text \<open>A whole \<^verbatim>\<open>GameState\<close> passed where a \<^verbatim>\<open>Partial<GameState>\<close> is expected.\<close>

definition all_fields :: "GameState \<Rightarrow> Updates" where
  "all_fields g = \<lparr>u_id = Some (game_id g), u_board = Some (board g), u_turn = Some (turn g),
                   u_players = Some (players g), u_playerNames = Some (playerNames g),
                   u_status = Some (status g), u_winner = Some (winner g),
                   u_lastMove = Some (lastMove g)\<rparr>"

text \<open>The object spread \<^verbatim>\<open>{ ...game, ...updates }\<close>.\<close>

definition spread :: "GameState \<Rightarrow> Updates \<Rightarrow> GameState" where
  "spread g u =
     \<lparr>game_id = (case u_id u of Some v \<Rightarrow> v | None \<Rightarrow> game_id g),
      board = (case u_board u of Some v \<Rightarrow> v | None \<Rightarrow> board g),
      turn = (case u_turn u of Some v \<Rightarrow> v | None \<Rightarrow> turn g),
      players = (case u_players u of Some v \<Rightarrow> v | None \<Rightarrow> players g),
      playerNames = (case u_playerNames u of Some v \<Rightarrow> v | None \<Rightarrow> playerNames g),
      status = (case u_status u of Some v \<Rightarrow> v | None \<Rightarrow> status g),
      winner = (case u_winner u of Some v \<Rightarrow> v | None \<Rightarrow> winner g),
      lastMove = (case u_lastMove u of Some v \<Rightarrow> v | None \<Rightarrow> lastMove g)\<rparr>"

definition updateGame ::
  "store \<Rightarrow> string \<Rightarrow> Updates \<Rightarrow> int \<Rightarrow> store \<times> GameState option" where
  "updateGame st gameId updates now =
     (case getGame st gameId of
        None \<Rightarrow> (st, None)
      | Some game \<Rightarrow>
          (let updated = (spread game updates)\<lparr>lastMove := now\<rparr>
           in (st(gameId \<mapsto> updated), Some updated)))"

subsection \<open>joinGame\<close>

text \<open>
  \<^verbatim>\<open>joinGame\<close> assigns the slot on the loaded object and passes that object to
  \<^verbatim>\<open>updateGame\<close>, which overrides every field of the stored session with it; so the stored
  session is the same whether the loaded object is the stored one (the in-memory map) or
  a copy (Redis). The object returned to the caller keeps the old \<^verbatim>\<open>lastMove\<close>.
\<close>

definition joinGame ::
  "store \<Rightarrow> string \<Rightarrow> jsval \<Rightarrow> string \<Rightarrow> int
     \<Rightarrow> store \<times> (GameState \<times> Color \<times> jsval) option" where
  "joinGame st gameId playerId username now =
     (case getGame st gameId of
        None \<Rightarrow> (st, None)
      | Some game \<Rightarrow>
          if strict_eq (white (players game)) playerId
          then (st, Some (game, White, playerId))
          else if strict_eq (black (players game)) playerId
          then (st, Some (game, Black, playerId))
          else if \<not> truthy (white (players game)) then
            (let game1 = game\<lparr>players := (players game)\<lparr>white := playerId\<rparr>,
                              playerNames := (playerNames game)\<lparr>white := Some username\<rparr>\<rparr>
             in (fst (updateGame st gameId (all_fields game1) now),
                 Some (game1, White, playerId)))
          else if \<not> truthy (black (players game)) then
            (let game1 = game\<lparr>players := (players game)\<lparr>black := playerId\<rparr>,
                              playerNames := (playerNames game)\<lparr>black := Some username\<rparr>,
                              status := Active\<rparr>
             in (fst (updateGame st gameId (all_fields game1) now),
                 Some (game1, Black, playerId)))
          else (st, None))"

subsection \<open>Route handlers\<close>

text \<open>
  The request body: \<^verbatim>\<open>action\<close> with the fields each action reads. \<^verbatim>\<open>playerId\<close> and
  \<^verbatim>\<open>username\<close> are any value; \<^verbatim>\<open>from\<close> and \<^verbatim>\<open>to\<close> are positions as \<^verbatim>\<open>Position\<close> declares
  them, with integer coordinates.
\<close>

datatype request =
    Join jsval jsval
  | Move jsval Position Position
  | Other

datatype response =
    Json_error string nat
  | Json_join GameState Color jsval
  | Json_game "GameState option"

text \<open>
  \<^verbatim>\<open>username.trim().length === 0\<close> on a string: every character is white space. A
  character is a code unit below 256; of these \<^verbatim>\<open>trim\<close> removes tab, line feed, vertical
  tab, form feed, carriage return, space and the no-break space (160).
\<close>

definition blank :: "string \<Rightarrow> bool" where
  "blank username =
     list_all (\<lambda>c. (of_char c :: nat) \<in> {9, 10, 11, 12, 13, 32, 160}) username"

definition GET :: "store \<Rightarrow> string \<Rightarrow> response" where
  "GET st gid =
     (case getGame st gid of
        None \<Rightarrow> Json_error ''Game not found'' 404
      | Some game \<Rightarrow> Json_game (Some game))"

text \<open>\<^verbatim>\<open>playerColor\<close> of the move branch; \<open>None\<close> is \<^verbatim>\<open>null\<close>.\<close>

definition playerColor :: "GameState \<Rightarrow> jsval \<Rightarrow> Color option" where
  "playerColor game playerId =
     (if strict_eq (white (players game)) playerId then Some White
      else if strict_eq (black (players game)) playerId then Some Black
      else None)"

text \<open>
  The handler either does not return (\<open>None\<close>), throws, or answers; with each outcome comes
  the storage it leaves. In the join branch a falsy \<^verbatim>\<open>username\<close> is refused, and
  \<^verbatim>\<open>username.trim()\<close> throws for a truthy value that is not a string (it has no \<^verbatim>\<open>trim\<close>
  method).
\<close>

definition POST ::
  "store \<Rightarrow> string \<Rightarrow> request \<Rightarrow> int \<Rightarrow> ((error + response) \<times> store) option" where
  "POST st gid body now =
     (case body of
        Join playerId username \<Rightarrow>
          if \<not> truthy username then Some (Inr (Json_error ''Username required'' 400), st)
          else
            (case username of
               Str name \<Rightarrow>
                 if blank name then Some (Inr (Json_error ''Username required'' 400), st)
                 else
                   (case joinGame st gid playerId name now of
                      (st1, None) \<Rightarrow> Some (Inr (Json_error ''Game is full'' 400), st1)
                    | (st1, Some (game, c, pid)) \<Rightarrow> Some (Inr (Json_join game c pid), st1))
             | _ \<Rightarrow> Some (Inl TypeError, st))
      | Move playerId from to \<Rightarrow>
          (case getGame st gid of
             None \<Rightarrow> Some (Inr (Json_error ''Game not found'' 404), st)
           | Some game \<Rightarrow>
               if playerColor game playerId = None \<or>
                  playerColor game playerId \<noteq> Some (turn game)
               then Some (Inr (Json_error ''Not your turn'' 400), st)
               else
                 (case isValidMove (board game) from to (turn game) of
                    None \<Rightarrow> None
                  | Some (Inl e) \<Rightarrow> Some (Inl e, st)
                  | Some (Inr ok) \<Rightarrow>
                      if \<not> ok then Some (Inr (Json_error ''Invalid move'' 400), st)
                      else
                        (case makeMove (board game) from to of
                           Inl e \<Rightarrow> Some (Inl e, st)
                         | Inr newBoard \<Rightarrow>
                             (let newTurn = (if turn game = White then Black else White);
                                  (st1, updated) =
                                     updateGame st gid
                                       (no_updates\<lparr>u_board := Some newBoard,
                                                   u_turn := Some newTurn\<rparr>) now
                              in Some (Inr (Json_game updated), st1)))))
      | Other \<Rightarrow> Some (Inr (Json_error ''Invalid action'' 400), st))"

text \<open>The create route; the random identifier is the parameter \<open>gameId\<close>.\<close>

definition POST_create :: "store \<Rightarrow> string \<Rightarrow> int \<Rightarrow> (string \<times> GameState) \<times> store" where
  "POST_create st gameId now =
     (let (st1, game) = createGame st gameId now in ((gameId, game), st1))"

subsection \<open>Histories of requests\<close>

datatype call = Create string int | Request string request int

text \<open>The storage after a call; a handler that throws or does not return has written nothing.\<close>

definition after :: "store \<Rightarrow> call \<Rightarrow> store" where
  "after st c =
     (case c of
        Create gameId now \<Rightarrow> snd (POST_create st gameId now)
      | Request gid body now \<Rightarrow>
          (case POST st gid body now of None \<Rightarrow> st | Some (_, st1) \<Rightarrow> st1))"

definition run :: "call list \<Rightarrow> store" where
  "run calls = foldl after Map.empty calls"

section \<open>The specification's notions\<close>

text \<open>
  A board of the data model is an 8 by 8 grid, a square a position within \<open>[0,7] \<times> [0,7]\<close>;
  \<open>at\<close> is the content of a square of such a board.
\<close>

definition wf_board :: "Board \<Rightarrow> bool" where
  "wf_board b = (length b = 8 \<and> list_all (\<lambda>r. length r = 8) b)"

definition on_board :: "Position \<Rightarrow> bool" where
  "on_board p = (0 \<le> row p \<and> row p \<le> 7 \<and> 0 \<le> col p \<and> col p \<le> 7)"

definition piece_at :: "Board \<Rightarrow> Position \<Rightarrow> Piece option" where
  "piece_at b p = b ! nat (row p) ! nat (col p)"

text \<open>The number of steps from one square to another along a rank, file or diagonal.\<close>

definition dist :: "Position \<Rightarrow> Position \<Rightarrow> int" where
  "dist from to = max \<bar>row to - row from\<bar> \<bar>col to - col from\<bar>"

text \<open>The squares strictly between the two endpoints, walking from \<open>from\<close> toward \<open>to\<close>.\<close>

definition between :: "Position \<Rightarrow> Position \<Rightarrow> Position list" where
  "between from to =
     map (\<lambda>k. \<lparr>row = row from + k * sgn (row to - row from),
               col = col from + k * sgn (col to - col from)\<rparr>)
       [1 .. dist from to - 1]"

definition empty_at :: "Board \<Rightarrow> Position \<Rightarrow> bool" where
  "empty_at b p = (cell b (row p) (col p) = Inr None)"

text \<open>The destination holds a piece of the mover's colour.\<close>

definition own_piece :: "Board \<Rightarrow> Position \<Rightarrow> Color \<Rightarrow> bool" where
  "own_piece b to c = (case piece_at b to of Some t \<Rightarrow> color t = c | None \<Rightarrow> False)"

text \<open>
  The pawn rule in the specification's words: one square straight forward onto an empty
  square; two squares straight forward from the home rank onto an empty square with the
  intervening square empty; one square diagonally forward onto an opposing piece.
\<close>

definition pawn_forward :: "Color \<Rightarrow> int" where
  "pawn_forward c = (if c = White then -1 else 1)"

definition pawn_home :: "Color \<Rightarrow> int" where
  "pawn_home c = (if c = White then 6 else 1)"

definition spec_pawn_move :: "Board \<Rightarrow> Position \<Rightarrow> Position \<Rightarrow> Color \<Rightarrow> bool" where
  "spec_pawn_move b from to c =
     ((col to = col from \<and> row to = row from + pawn_forward c \<and> piece_at b to = None)
    \<or> (col to = col from \<and> row from = pawn_home c \<and>
        row to = row from + 2 * pawn_forward c \<and> piece_at b to = None \<and>
        piece_at b \<lparr>row = row from + pawn_forward c, col = col from\<rparr> = None)
    \<or> (\<bar>col to - col from\<bar> = 1 \<and> row to = row from + pawn_forward c \<and>
        (case piece_at b to of Some p \<Rightarrow> color p \<noteq> c | None \<Rightarrow> False)))"

text \<open>The lines of the sliding pieces: rank or file, diagonal, or either.\<close>

definition spec_line :: "PieceType \<Rightarrow> Position \<Rightarrow> Position \<Rightarrow> bool" where
  "spec_line t from to =
     (let straight = (row to = row from \<or> col to = col from);
          diagonal = (\<bar>row to - row from\<bar> = \<bar>col to - col from\<bar>)
      in case t of Rook \<Rightarrow> straight | Bishop \<Rightarrow> diagonal | Queen \<Rightarrow> straight \<or> diagonal
         | _ \<Rightarrow> False)"

definition spec_piece_move :: "Board \<Rightarrow> Position \<Rightarrow> Position \<Rightarrow> Piece \<Rightarrow> bool" where
  "spec_piece_move b from to piece =
     (case ptype piece of
        Pawn \<Rightarrow> spec_pawn_move b from to (color piece)
      | Knight \<Rightarrow> (\<bar>row to - row from\<bar> = 2 \<and> \<bar>col to - col from\<bar> = 1) \<or>
                  (\<bar>row to - row from\<bar> = 1 \<and> \<bar>col to - col from\<bar> = 2)
      | King \<Rightarrow> \<bar>row to - row from\<bar> \<le> 1 \<and> \<bar>col to - col from\<bar> \<le> 1
      | t \<Rightarrow> spec_line t from to \<and> list_all (empty_at b) (between from to))"

text \<open>The square \<open>k\<close> steps straight ahead of a pawn of colour \<open>c\<close>.\<close>

definition advance :: "Position \<Rightarrow> Color \<Rightarrow> int \<Rightarrow> Position" where
  "advance from c k = \<lparr>row = row from + k * pawn_forward c, col = col from\<rparr>"

definition emptyBoard :: Board where
  "emptyBoard = replicate 8 (replicate 8 None)"

text \<open>
  The session with \<open>p\<close> (display name \<open>u\<close>) seated at white, or seated at black and the status
  active; and the session after a move: the new board, the turn flipped, the timestamp
  refreshed.
\<close>

definition seat_white :: "GameState \<Rightarrow> jsval \<Rightarrow> string \<Rightarrow> GameState" where
  "seat_white g p u =
     g\<lparr>players := (players g)\<lparr>white := p\<rparr>,
       playerNames := (playerNames g)\<lparr>white := Some u\<rparr>\<rparr>"

definition seat_black :: "GameState \<Rightarrow> jsval \<Rightarrow> string \<Rightarrow> GameState" where
  "seat_black g p u =
     g\<lparr>players := (players g)\<lparr>black := p\<rparr>,
       playerNames := (playerNames g)\<lparr>black := Some u\<rparr>,
       status := Active\<rparr>"

definition moved :: "GameState \<Rightarrow> Board \<Rightarrow> int \<Rightarrow> GameState" where
  "moved g nb now =
     g\<lparr>board := nb, turn := (if turn g = White then Black else White), lastMove := now\<rparr>"

text \<open>Every stored session is waiting or active, and has no winner.\<close>

definition settled :: "store \<Rightarrow> bool" where
  "settled st = (\<forall>gid g. st gid = Some g \<longrightarrow> (status g = Waiting \<or> status g = Active) \<and> winner g = None)"



section \<open>Example positions and sessions\<close>

text \<open>A white rook at \<open>{7,0}\<close> with a black knight at \<open>{7,3}\<close>, nothing else.\<close>

definition blocked_rank :: Board where
  "blocked_rank =
     (replicate 7 (replicate 8 None)) @
     [[mk Rook White, None, None, mk Knight Black, None, None, None, None]]"

text \<open>The initial position after the white pawn went from \<open>{6,4}\<close> to \<open>{4,4}\<close>.\<close>

definition board_e4 :: Board where
  "board_e4 =
    [[mk Rook Black, mk Knight Black, mk Bishop Black, mk Queen Black,
      mk King Black, mk Bishop Black, mk Knight Black, mk Rook Black],
     [mk Pawn Black, mk Pawn Black, mk Pawn Black, mk Pawn Black,
      mk Pawn Black, mk Pawn Black, mk Pawn Black, mk Pawn Black],
     [None, None, None, None, None, None, None, None],
     [None, None, None, None, None, None, None, None],
     [None, None, None, None, mk Pawn White, None, None, None],
     [None, None, None, None, None, None, None, None],
     [mk Pawn White, mk Pawn White, mk Pawn White, mk Pawn White,
      None, mk Pawn White, mk Pawn White, mk Pawn White],
     [mk Rook White, mk Knight White, mk Bishop White, mk Queen White,
      mk King White, mk Bishop White, mk Knight White, mk Rook White]]"

text \<open>
  The storage after creating session \<open>g1\<close>, after \<open>p1\<close> (Alice) joined it, and after \<open>p2\<close> (Bob)
  joined it too.
\<close>

definition store_created :: store where
  "store_created = fst (createGame Map.empty ''g1'' 0)"

definition store_one :: store where
  "store_one = fst (joinGame store_created ''g1'' (Str ''p1'') ''Alice'' 1)"

definition store_two :: store where
  "store_two = fst (joinGame store_one ''g1'' (Str ''p2'') ''Bob'' 2)"

definition game_created :: GameState where
  "game_created =
     \<lparr>game_id = ''g1'', board = initialBoard, turn = White,
      players = \<lparr>white = Null, black = Null\<rparr>,
      playerNames = \<lparr>white = None, black = None\<rparr>,
      status = Waiting, winner = None, lastMove = 0\<rparr>"

definition game_one :: GameState where
  "game_one =
     \<lparr>game_id = ''g1'', board = initialBoard, turn = White,
      players = \<lparr>white = Str ''p1'', black = Null\<rparr>,
      playerNames = \<lparr>white = Some ''Alice'', black = None\<rparr>,
      status = Waiting, winner = None, lastMove = 1\<rparr>"

definition game_two :: GameState where
  "game_two =
     \<lparr>game_id = ''g1'', board = initialBoard, turn = White,
      players = \<lparr>white = Str ''p1'', black = Str ''p2''\<rparr>,
      playerNames = \<lparr>white = Some ''Alice'', black = Some ''Bob''\<rparr>,
      status = Active, winner = None, lastMove = 2\<rparr>"

text \<open>
  Sessions reached with an empty player identifier: \<open>p1\<close> joined, then the empty identifier
  joined (with the name Bob); and the empty identifier joined first, then \<open>p2\<close>.
\<close>

definition game_anon :: GameState where
  "game_anon =
     \<lparr>game_id = ''g1'', board = initialBoard, turn = White,
      players = \<lparr>white = Str ''p1'', black = Str []\<rparr>,
      playerNames = \<lparr>white = Some ''Alice'', black = Some ''Bob''\<rparr>,
      status = Active, winner = None, lastMove = 2\<rparr>"

definition game_evicted :: GameState where
  "game_evicted =
     \<lparr>game_id = ''g1'', board = initialBoard, turn = White,
      players = \<lparr>white = Str ''p2'', black = Null\<rparr>,
      playerNames = \<lparr>white = Some ''Bob'', black = None\<rparr>,
      status = Waiting, winner = None, lastMove = 2\<rparr>"

section \<open>Properties of the rules engine\<close>

subsection \<open>Reading squares\<close>

lemma cell_wf:
  "wf_board b \<Longrightarrow> 0 \<le> r \<Longrightarrow> r \<le> 7 \<Longrightarrow>
     cell b r c = Inr (if 0 \<le> c \<and> c \<le> 7 then b ! nat r ! nat c else None)"
  by (auto simp: cell_def wf_board_def list_all_length)

lemma cell_on_board: "wf_board b \<Longrightarrow> on_board p \<Longrightarrow> cell b (row p) (col p) = Inr (piece_at b p)"
  by (simp add: cell_wf on_board_def piece_at_def)

subsection \<open>The path walk\<close>

lemma loop_steps:
  "rs \<noteq> 0 \<or> cs \<noteq> 0 \<Longrightarrow> row to = r + int n * rs \<Longrightarrow> col to = c + int n * cs \<Longrightarrow>
   (\<forall>k<n. 0 \<le> r + int k * rs \<and> r + int k * rs < int (length b)) \<Longrightarrow>
   isPathClear_loop b to rs cs r c =
     Some (Inr (\<forall>k<n. cell b (r + int k * rs) (c + int k * cs) = Inr None))"
proof (induction n arbitrary: r c)
  case 0
  then show ?case by (subst isPathClear_loop.simps) simp
next
  case (Suc n)
  have ne: "r \<noteq> row to \<or> c \<noteq> col to"
    using Suc.prems(1,2,3) by auto
  have here: "0 \<le> r \<and> r < int (length b)"
    using Suc.prems(4) [rule_format, of 0] by simp
  then have "\<exists>sq. cell b r c = Inr sq"
    by (simp add: cell_def)
  then obtain sq where sq: "cell b r c = Inr sq" ..
  show ?case
  proof (cases sq)
    case (Some p)
    have "\<not> (\<forall>k<Suc n. cell b (r + int k * rs) (c + int k * cs) = Inr None)"
      using sq Some by (auto intro: exI [of _ 0])
    with ne sq Some show ?thesis
      by (subst isPathClear_loop.simps) simp
  next
    case None
    have rng: "\<forall>k<n. 0 \<le> (r + rs) + int k * rs \<and> (r + rs) + int k * rs < int (length b)"
    proof (intro allI impI)
      fix k assume "k < n"
      then show "0 \<le> (r + rs) + int k * rs \<and> (r + rs) + int k * rs < int (length b)"
        using Suc.prems(4) [rule_format, of "Suc k"] by (simp add: algebra_simps)
    qed
    have ih: "isPathClear_loop b to rs cs (r + rs) (c + cs) =
        Some (Inr (\<forall>k<n. cell b ((r + rs) + int k * rs) ((c + cs) + int k * cs) = Inr None))"
      using Suc.prems(2,3)
      by (intro Suc.IH [OF Suc.prems(1) _ _ rng]) (simp_all add: algebra_simps)
    have shift: "(\<forall>k<Suc n. cell b (r + int k * rs) (c + int k * cs) = Inr None) \<longleftrightarrow>
        (\<forall>k<n. cell b ((r + rs) + int k * rs) ((c + cs) + int k * cs) = Inr None)"
      (is "?L \<longleftrightarrow> ?R")
    proof
      assume l: ?L
      show ?R
      proof (intro allI impI)
        fix k assume "k < n"
        then show "cell b ((r + rs) + int k * rs) ((c + cs) + int k * cs) = Inr None"
          using l [rule_format, of "Suc k"] by (simp add: algebra_simps)
      qed
    next
      assume rr: ?R
      show ?L
      proof (intro allI impI)
        fix k assume k: "k < Suc n"
        show "cell b (r + int k * rs) (c + int k * cs) = Inr None"
        proof (cases k)
          case 0
          with sq None show ?thesis by simp
        next
          case (Suc j)
          with k rr [rule_format, of j] show ?thesis by (simp add: algebra_simps)
        qed
      qed
    qed
    from ne sq None ih shift show ?thesis
      by (subst isPathClear_loop.simps) simp
  qed
qed


lemma list_all_between:
  "list_all (empty_at b) (between from to) \<longleftrightarrow>
     (\<forall>j. 1 \<le> j \<and> j < dist from to \<longrightarrow>
        cell b (row from + j * sgn (row to - row from))
               (col from + j * sgn (col to - col from)) = Inr None)"
  by (auto simp: between_def list_all_iff empty_at_def)

lemma isPathClear_aligned:
  assumes wf: "wf_board b" and f: "on_board from" and t: "on_board to"
    and al: "row to = row from \<or> col to = col from \<or>
             \<bar>row to - row from\<bar> = \<bar>col to - col from\<bar>"
  shows "isPathClear b from to = Some (Inr (list_all (empty_at b) (between from to)))"
proof (cases "row to = row from \<and> col to = col from")
  case True
  then have "dist from to = 0" by (simp add: dist_def)
  then have "between from to = []" by (simp add: between_def)
  with True show ?thesis
    by (simp add: isPathClear_def) (subst isPathClear_loop.simps, simp)
next
  case False
  define rs where "rs = sgn (row to - row from)"
  define cs where "cs = sgn (col to - col from)"
  define d where "d = dist from to"
  define n where "n = nat (d - 1)"
  have dpos: "1 \<le> d" using False by (auto simp: d_def dist_def)
  have rsv: "rs = -1 \<or> rs = 0 \<or> rs = 1" by (auto simp: rs_def sgn_if)
  have rto: "row to = row from + d * rs"
    using al False by (auto simp: d_def dist_def rs_def cs_def sgn_if max_def)
  have cto: "col to = col from + d * cs"
    using al False by (auto simp: d_def dist_def rs_def cs_def sgn_if max_def)
  have nz: "rs \<noteq> 0 \<or> cs \<noteq> 0" using False by (auto simp: rs_def cs_def sgn_if)
  have dn: "d = int n + 1" using dpos by (simp add: n_def)
  have steps: "isPathClear b from to =
      isPathClear_loop b to rs cs (row from + rs) (col from + cs)"
    by (auto simp: isPathClear_def Let_def rs_def cs_def sgn_if)
  have len: "length b = 8" using wf by (simp add: wf_board_def)
  have rng: "\<forall>k<n. 0 \<le> (row from + rs) + int k * rs \<and>
                    (row from + rs) + int k * rs < int (length b)"
  proof (intro allI impI)
    fix k assume k: "k < n"
    have "0 \<le> row from \<and> row from \<le> 7 \<and> 0 \<le> row from + d * rs \<and> row from + d * rs \<le> 7"
      using f t rto by (simp add: on_board_def)
    moreover have "int k + 1 < d" using k dn by simp
    ultimately show "0 \<le> (row from + rs) + int k * rs \<and>
                    (row from + rs) + int k * rs < int (length b)"
      using rsv len by auto
  qed
  have "isPathClear_loop b to rs cs (row from + rs) (col from + cs) =
      Some (Inr (\<forall>k<n. cell b ((row from + rs) + int k * rs)
                              ((col from + cs) + int k * cs) = Inr None))"
    using rto cto dn
    by (intro loop_steps [OF nz _ _ rng]) (simp_all add: algebra_simps)
  moreover have "(\<forall>k<n. cell b ((row from + rs) + int k * rs)
                              ((col from + cs) + int k * cs) = Inr None) \<longleftrightarrow>
      list_all (empty_at b) (between from to)" (is "?L \<longleftrightarrow> ?R")
  proof
    assume l: ?L
    show ?R
      unfolding list_all_between
    proof (intro allI impI)
      fix j :: int assume j: "1 \<le> j \<and> j < dist from to"
      then have jn: "nat (j - 1) < n" using dn unfolding d_def by linarith
      from l [rule_format, OF jn] j
      show "cell b (row from + j * sgn (row to - row from))
                   (col from + j * sgn (col to - col from)) = Inr None"
        by (simp add: rs_def cs_def algebra_simps)
    qed
  next
    assume r: ?R
    show ?L
    proof (intro allI impI)
      fix k assume "k < n"
      then have kd: "1 \<le> int k + 1 \<and> int k + 1 < dist from to"
        using dn unfolding d_def by linarith
      from r [unfolded list_all_between, rule_format, OF kd]
      show "cell b ((row from + rs) + int k * rs) ((col from + cs) + int k * cs) = Inr None"
        by (simp add: rs_def cs_def algebra_simps)
    qed
  qed
  ultimately show ?thesis using steps by simp
qed


subsection \<open>isValidMove on a well-formed board\<close>

lemma pawnCase_wf:
  assumes wf: "wf_board b" and f: "on_board from" and t: "on_board to"
    and own: "\<not> own_piece b to (color piece)"
  shows "pawnCase b from piece (piece_at b to) (row to - row from) (col to - col from) =
         Some (Inr (spec_pawn_move b from to (color piece)))"
proof -
  have mid: "row from = 6 \<Longrightarrow> cell b (row from + (- 1)) (col from) =
               Inr (piece_at b \<lparr>row = row from + (- 1), col = col from\<rparr>)"
       "row from = 1 \<Longrightarrow> cell b (row from + 1) (col from) =
               Inr (piece_at b \<lparr>row = row from + 1, col = col from\<rparr>)"
    using wf f by (simp_all add: cell_wf on_board_def piece_at_def)
  show ?thesis
    using mid own
    by (cases "color piece"; cases "piece_at b to")
       (auto simp: pawnCase_def spec_pawn_move_def pawn_forward_def pawn_home_def
          own_piece_def Let_def)
qed

lemma isValidMove_wf:
  assumes wf: "wf_board b" and f: "on_board from" and p: "piece_at b from = Some piece"
  shows "isValidMove b from to tn =
         Some (Inr (color piece = tn \<and> on_board to \<and> \<not> own_piece b to (color piece) \<and>
                    spec_piece_move b from to piece))"
proof (cases "color piece = tn \<and> on_board to \<and> \<not> own_piece b to (color piece)")
  case False
  then show ?thesis
    using cell_on_board [OF wf f] cell_on_board [OF wf, of to] p
    by (auto simp: isValidMove_def on_board_def own_piece_def split: option.splits)
next
  case True
  then have t: "on_board to" and own: "\<not> own_piece b to (color piece)"
    and tn: "color piece = tn" by blast+
  have pc: "isValidMove b from to tn =
      (case ptype piece of
         Pawn \<Rightarrow> pawnCase b from piece (piece_at b to) (row to - row from) (col to - col from)
       | Rook \<Rightarrow> if row to - row from = 0 \<or> col to - col from = 0
                 then isPathClear b from to else Some (Inr False)
       | Knight \<Rightarrow> Some (Inr ((\<bar>row to - row from\<bar> = 2 \<and> \<bar>col to - col from\<bar> = 1) \<or>
                               (\<bar>row to - row from\<bar> = 1 \<and> \<bar>col to - col from\<bar> = 2)))
       | Bishop \<Rightarrow> if \<bar>row to - row from\<bar> = \<bar>col to - col from\<bar>
                   then isPathClear b from to else Some (Inr False)
       | Queen \<Rightarrow> if row to - row from = 0 \<or> col to - col from = 0 \<or>
                     \<bar>row to - row from\<bar> = \<bar>col to - col from\<bar>
                  then isPathClear b from to else Some (Inr False)
       | King \<Rightarrow> Some (Inr (\<bar>row to - row from\<bar> \<le> 1 \<and> \<bar>col to - col from\<bar> \<le> 1)))"
    using True cell_on_board [OF wf f] cell_on_board [OF wf t] p
    by (auto simp: isValidMove_def on_board_def own_piece_def Let_def split: option.splits)
  show ?thesis
  proof (cases "ptype piece")
    case Pawn
    with pc t own tn pawnCase_wf [OF wf f t own] show ?thesis
      by (simp add: spec_piece_move_def)
  next
    case Rook
    with pc t own tn isPathClear_aligned [OF wf f t] show ?thesis
      by (auto simp: spec_piece_move_def spec_line_def)
  next
    case Knight
    with pc t own tn show ?thesis by (simp add: spec_piece_move_def)
  next
    case Bishop
    with pc t own tn isPathClear_aligned [OF wf f t] show ?thesis
      by (auto simp: spec_piece_move_def spec_line_def)
  next
    case Queen
    with pc t own tn isPathClear_aligned [OF wf f t] show ?thesis
      by (auto simp: spec_piece_move_def spec_line_def)
  next
    case King
    with pc t own tn show ?thesis by (simp add: spec_piece_move_def)
  qed
qed

subsection \<open>Early rejections\<close>

lemma isValidMove_from_empty:
  "cell b (row from) (col from) = Inr None \<Longrightarrow> isValidMove b from to tn = Some (Inr False)"
  by (simp add: isValidMove_def)

lemma isValidMove_wrong_colour:
  "cell b (row from) (col from) = Inr (Some p) \<Longrightarrow> color p \<noteq> tn \<Longrightarrow>
     isValidMove b from to tn = Some (Inr False)"
  by (simp add: isValidMove_def)

lemma isValidMove_off_board:
  "cell b (row from) (col from) = Inr x \<Longrightarrow> \<not> on_board to \<Longrightarrow>
     isValidMove b from to tn = Some (Inr False)"
  by (cases x) (auto simp: isValidMove_def on_board_def)

lemma isValidMove_self_capture:
  "cell b (row from) (col from) = Inr (Some p) \<Longrightarrow>
   cell b (row to) (col to) = Inr (Some q) \<Longrightarrow> color q = color p \<Longrightarrow>
     isValidMove b from to tn = Some (Inr False)"
  by (simp add: isValidMove_def)

lemma cell_emptyBoard: "0 \<le> r \<Longrightarrow> r \<le> 7 \<Longrightarrow> cell emptyBoard r c = Inr None"
  by (auto simp: cell_def emptyBoard_def)

subsection \<open>Enumerating destinations\<close>

lemma set_squares: "set squares = {p. on_board p}"
proof (rule set_eqI)
  fix p :: Position
  have "p \<in> set squares \<longleftrightarrow> (\<exists>r<8. \<exists>c<8. p = \<lparr>row = int r, col = int c\<rparr>)"
    by (force simp: squares_def)
  also have "\<dots> \<longleftrightarrow> on_board p"
  proof
    assume "\<exists>r<8. \<exists>c<8. p = \<lparr>row = int r, col = int c\<rparr>"
    then show "on_board p" by (auto simp: on_board_def)
  next
    assume ob: "on_board p"
    then have "nat (row p) < 8" "nat (col p) < 8"
      and "p = \<lparr>row = int (nat (row p)), col = int (nat (col p))\<rparr>"
      by (auto simp: on_board_def)
    then show "\<exists>r<8. \<exists>c<8. p = \<lparr>row = int r, col = int c\<rparr>" by blast
  qed
  finally show "p \<in> set squares \<longleftrightarrow> p \<in> {p. on_board p}" by simp
qed

lemma getValidMoves_loop_filter:
  "(\<And>to. to \<in> set sqs \<Longrightarrow> isValidMove b from to tn = Some (Inr (P to))) \<Longrightarrow>
     getValidMoves_loop b from tn sqs acc = Some (Inr (acc @ filter P sqs))"
  by (induction sqs arbitrary: acc) simp_all

lemma pawn_isValidMove:
  assumes wf: "wf_board b" and f: "on_board from"
    and p: "piece_at b from = Some \<lparr>ptype = Pawn, color = c\<rparr>"
  shows "isValidMove b from to c = Some (Inr (on_board to \<and> spec_pawn_move b from to c))"
proof -
  have "spec_pawn_move b from to c \<Longrightarrow> \<not> own_piece b to c"
    by (auto simp: spec_pawn_move_def own_piece_def split: option.splits)
  then show ?thesis
    using isValidMove_wf [OF wf f p, of to c] by (auto simp: spec_piece_move_def)
qed


lemma getValidMoves_pawn:
  assumes wf: "wf_board b" and f: "on_board from"
    and p: "piece_at b from = Some \<lparr>ptype = Pawn, color = c\<rparr>"
  shows "getValidMoves b from c =
           Some (Inr (filter (\<lambda>to. on_board to \<and> spec_pawn_move b from to c) squares))"
  unfolding getValidMoves_def
  using getValidMoves_loop_filter [of squares b "from" c
      "\<lambda>to. on_board to \<and> spec_pawn_move b from to c" "[]"]
    pawn_isValidMove [OF wf f p]
  by simp

lemma position_eq: "(p :: Position) = \<lparr>row = r, col = c\<rparr> \<longleftrightarrow> row p = r \<and> col p = c"
  by (cases p) simp

lemma wf_initialBoard: "wf_board initialBoard"
  by (simp add: wf_board_def initialBoard_def)

subsection \<open>Sliding pieces\<close>

lemma sliding_isValidMove:
  assumes wf: "wf_board b" and f: "on_board from" and p: "piece_at b from = Some piece"
    and s: "ptype piece = Rook \<or> ptype piece = Bishop \<or> ptype piece = Queen"
  shows "isValidMove b from to tn =
         Some (Inr (color piece = tn \<and> on_board to \<and> \<not> own_piece b to (color piece) \<and>
                    spec_line (ptype piece) from to \<and>
                    list_all (empty_at b) (between from to)))"
  using isValidMove_wf [OF wf f p, of to tn] s
  by (auto simp: spec_piece_move_def)

subsection \<open>The origin square is read unchecked\<close>




subsection \<open>makeMove: the arrays written and the resulting squares\<close>

lemma deref_fresh:
  "valid_ref h rows \<Longrightarrow>
     deref (h @ map (\<lambda>a. h ! a) rows) [length h ..< length h + length rows] = deref h rows"
  by (auto simp: deref_def valid_ref_def list_all_length nth_append intro!: nth_equalityI)

lemma deref_old:
  "valid_ref h rows \<Longrightarrow> length h \<le> length h' \<Longrightarrow> \<forall>a<length h. h' ! a = h ! a \<Longrightarrow>
     deref h' rows = deref h rows"
  by (simp add: deref_def valid_ref_def list_all_iff)

lemma deref_update:
  "length h0 = n + k \<Longrightarrow> i < k \<Longrightarrow>
     deref (h0[n + i := r]) [n ..< n + k] = (deref h0 [n ..< n + k])[i := r]"
  by (auto simp: deref_def nth_list_update intro!: nth_equalityI)

lemma makeMove_heap_refines:
  assumes v: "valid_ref h rows"
  shows "case makeMove_heap h rows from to of
           Inl e \<Rightarrow> makeMove (deref h rows) from to = Inl e
         | Inr (h', nb) \<Rightarrow>
             makeMove (deref h rows) from to = Inr (deref h' nb) \<and>
             length h \<le> length h' \<and> (\<forall>a<length h. h' ! a = h ! a) \<and>
             nb = [length h ..< length h + length rows]"
proof -
  define h0 where "h0 = h @ map (\<lambda>a. h ! a) rows"
  define nb where "nb = [length h ..< length h + length rows]"
  have d0: "deref h0 nb = deref h rows"
    unfolding h0_def nb_def using v by (rule deref_fresh)
  have len0: "length h0 = length h + length rows" by (simp add: h0_def)
  have lenb: "length (deref h rows) = length rows" by (simp add: deref_def)
  have lennb: "length nb = length rows" by (simp add: nb_def)
  show ?thesis
  proof (cases "0 \<le> row to \<and> row to < int (length rows)")
    case False
    then show ?thesis
      by (auto simp: makeMove_heap_def makeMove_def lenb Let_def)
  next
    case t: True
    show ?thesis
    proof (cases "cell (deref h rows) (row from) (col from)")
      case (Inl e)
      with t d0 lennb show ?thesis
        by (simp add: makeMove_heap_def makeMove_def lenb Let_def
            h0_def [symmetric] nb_def [symmetric])
    next
      case (Inr piece)
      then have f: "0 \<le> row from \<and> row from < int (length rows)"
        using lenb by (auto simp: cell_def split: if_splits)
      define i where "i = nat (row to)"
      define j where "j = nat (row from)"
      have i: "i < length rows" and j: "j < length rows"
        using t f by (auto simp: i_def j_def)
      define h1 where "h1 = h0[length h + i := js_set (h0 ! (length h + i)) (col to) piece]"
      define h2 where "h2 = h1[length h + j := js_set (h1 ! (length h + j)) (col from) None]"
      have nbi: "nb ! i = length h + i" and nbj: "nb ! j = length h + j"
        using i j by (simp_all add: nb_def)
      have hh: "makeMove_heap h rows from to = Inr (h2, nb)"
        using t Inr d0 nbi nbj lennb
        by (simp add: makeMove_heap_def Let_def h0_def [symmetric] nb_def [symmetric]
            h1_def h2_def i_def [symmetric] j_def [symmetric])
      have r0: "h0 ! (length h + i) = deref h rows ! i"
        using i by (simp add: h0_def nth_append deref_def)
      have d1: "deref h1 nb = (deref h rows)[i := js_set (deref h rows ! i) (col to) piece]"
        unfolding h1_def nb_def using deref_update [OF len0 i] d0 r0 by (simp add: nb_def)
      have len1: "length h1 = length h + length rows" by (simp add: h1_def len0)
      have r1: "h1 ! (length h + j) = deref h1 nb ! j"
        using j by (simp add: deref_def nb_def)
      have d2: "deref h2 nb =
          (deref h1 nb)[j := js_set (deref h1 nb ! j) (col from) None]"
        unfolding h2_def nb_def using deref_update [OF len1 j] r1 by (simp add: nb_def)
      have mm: "makeMove (deref h rows) from to = Inr (deref h2 nb)"
        using t Inr lenb
        by (simp add: makeMove_def Let_def d2 d1 i_def [symmetric] j_def [symmetric])
      have old: "\<forall>a<length h. h2 ! a = h ! a"
        by (simp add: h2_def h1_def h0_def nth_append)
      have "length h \<le> length h2" by (simp add: h2_def h1_def len0)
      with hh mm old show ?thesis by (simp add: nb_def)
    qed
  qed
qed


lemma makeMove_at:
  assumes wf: "wf_board b" and f: "on_board from" and t: "on_board to"
  shows "\<exists>nb. makeMove b from to = Inr nb \<and> wf_board nb \<and>
           (\<forall>sq. on_board sq \<longrightarrow>
              piece_at nb sq = (if sq = from then None else if sq = to then piece_at b from else piece_at b sq))"
proof -
  define i where "i = nat (row to)"
  define j where "j = nat (row from)"
  define ct where "ct = nat (col to)"
  define cf where "cf = nat (col from)"
  have len: "length b = 8" and rows: "\<And>r. r < 8 \<Longrightarrow> length (b ! r) = 8"
    using wf by (simp_all add: wf_board_def list_all_length)
  have bnd: "i < 8" "j < 8" "ct < 8" "cf < 8"
    using f t by (auto simp: on_board_def i_def j_def ct_def cf_def)
  define b1 where "b1 = b[i := (b ! i)[ct := piece_at b from]]"
  define nb where "nb = b1[j := (b1 ! j)[cf := None]]"
  have c: "cell b (row from) (col from) = Inr (piece_at b from)"
    using cell_on_board [OF wf f] .
  have s1: "js_set (b ! i) (col to) (piece_at b from) = (b ! i)[ct := piece_at b from]"
    using t bnd rows by (simp add: js_set_def on_board_def ct_def)
  have len1: "length b1 = 8" and rows1: "\<And>r. r < 8 \<Longrightarrow> length (b1 ! r) = 8"
    using len rows bnd by (simp_all add: b1_def nth_list_update)
  have s2: "js_set (b1 ! j) (col from) None = (b1 ! j)[cf := None]"
    using f bnd rows1 by (simp add: js_set_def on_board_def cf_def)
  have mm: "makeMove b from to = Inr nb"
    using t f c len s1 s2
    by (simp add: makeMove_def Let_def on_board_def i_def [symmetric] j_def [symmetric]
        b1_def [symmetric] nb_def)
  have wfn: "wf_board nb"
    using len1 rows1 bnd by (simp add: wf_board_def list_all_length nb_def nth_list_update)
  have ats: "piece_at nb sq = (if sq = from then None else if sq = to then piece_at b from else piece_at b sq)"
    if sq: "on_board sq" for sq
  proof -
    define r where "r = nat (row sq)"
    define k where "k = nat (col sq)"
    have rk: "r < 8" "k < 8" using sq by (auto simp: on_board_def r_def k_def)
    have eqf: "sq = from \<longleftrightarrow> r = j \<and> k = cf"
      using sq f by (cases sq; cases "from") (auto simp: on_board_def r_def k_def j_def cf_def)
    have eqt: "sq = to \<longleftrightarrow> r = i \<and> k = ct"
      using sq t by (cases sq; cases to) (auto simp: on_board_def r_def k_def i_def ct_def)
    have "piece_at nb sq = nb ! r ! k" by (simp add: piece_at_def r_def k_def)
    also have "\<dots> = (if r = j \<and> k = cf then None else b1 ! r ! k)"
      using rk bnd len1 rows1 by (simp add: nb_def nth_list_update)
    also have "b1 ! r ! k = (if r = i \<and> k = ct then piece_at b from else b ! r ! k)"
      using rk bnd len rows by (simp add: b1_def nth_list_update)
    also have "b ! r ! k = piece_at b sq" by (simp add: piece_at_def r_def k_def)
    finally show ?thesis using eqf eqt by simp
  qed
  from mm wfn ats show ?thesis by blast
qed

section \<open>Properties of the session manager\<close>

subsection \<open>Storing a session\<close>

lemma spread_all_fields: "spread g (all_fields g1) = g1"
  by (simp add: spread_def all_fields_def)

lemma updateGame_all_fields:
  "st gid = Some g \<Longrightarrow>
     updateGame st gid (all_fields g1) now =
       (st(gid \<mapsto> g1\<lparr>lastMove := now\<rparr>), Some (g1\<lparr>lastMove := now\<rparr>))"
  by (simp add: updateGame_def getGame_def spread_all_fields Let_def)

lemma store_created_eq: "store_created = [''g1'' \<mapsto> game_created]"
  by (simp add: store_created_def createGame_def game_created_def Let_def)

lemma store_one_eq: "store_one = [''g1'' \<mapsto> game_one]"
  by (simp add: store_one_def store_created_eq joinGame_def getGame_def strict_eq_def truthy_def
      updateGame_all_fields game_created_def game_one_def Let_def)

lemma store_two_eq: "store_two = [''g1'' \<mapsto> game_two]"
  by (simp add: store_two_def store_one_eq joinGame_def getGame_def strict_eq_def truthy_def
      updateGame_all_fields game_one_def game_two_def Let_def)

subsection \<open>joinGame, path by path\<close>

lemma joinGame_absent: "st gid = None \<Longrightarrow> joinGame st gid p u now = (st, None)"
  by (simp add: joinGame_def getGame_def)

lemma joinGame_rejoin_white:
  "st gid = Some g \<Longrightarrow> strict_eq (white (players g)) p \<Longrightarrow>
     joinGame st gid p u now = (st, Some (g, White, p))"
  by (simp add: joinGame_def getGame_def)

lemma joinGame_rejoin_black:
  "st gid = Some g \<Longrightarrow> \<not> strict_eq (white (players g)) p \<Longrightarrow>
   strict_eq (black (players g)) p \<Longrightarrow>
     joinGame st gid p u now = (st, Some (g, Black, p))"
  by (simp add: joinGame_def getGame_def)

lemma joinGame_white:
  "st gid = Some g \<Longrightarrow> \<not> strict_eq (white (players g)) p \<Longrightarrow>
   \<not> strict_eq (black (players g)) p \<Longrightarrow> \<not> truthy (white (players g)) \<Longrightarrow>
     joinGame st gid p u now =
       (st(gid \<mapsto> (seat_white g p u)\<lparr>lastMove := now\<rparr>), Some (seat_white g p u, White, p))"
  by (simp add: joinGame_def getGame_def updateGame_all_fields seat_white_def Let_def)

lemma joinGame_black:
  "st gid = Some g \<Longrightarrow> \<not> strict_eq (white (players g)) p \<Longrightarrow>
   \<not> strict_eq (black (players g)) p \<Longrightarrow>
   truthy (white (players g)) \<Longrightarrow> \<not> truthy (black (players g)) \<Longrightarrow>
     joinGame st gid p u now =
       (st(gid \<mapsto> (seat_black g p u)\<lparr>lastMove := now\<rparr>), Some (seat_black g p u, Black, p))"
  by (simp add: joinGame_def getGame_def updateGame_all_fields seat_black_def Let_def)

lemma joinGame_full:
  "st gid = Some g \<Longrightarrow> \<not> strict_eq (white (players g)) p \<Longrightarrow>
   \<not> strict_eq (black (players g)) p \<Longrightarrow>
   truthy (white (players g)) \<Longrightarrow> truthy (black (players g)) \<Longrightarrow>
     joinGame st gid p u now = (st, None)"
  by (simp add: joinGame_def getGame_def)

lemma joinGame_cases:
  assumes "st gid = Some g"
  obtains (rejoin) c where "joinGame st gid p u now = (st, Some (g, c, p))"
  | (white) "joinGame st gid p u now =
       (st(gid \<mapsto> (seat_white g p u)\<lparr>lastMove := now\<rparr>), Some (seat_white g p u, White, p))"
      "\<not> strict_eq (white (players g)) p" "\<not> strict_eq (black (players g)) p"
      "\<not> truthy (white (players g))"
  | (black) "joinGame st gid p u now =
       (st(gid \<mapsto> (seat_black g p u)\<lparr>lastMove := now\<rparr>), Some (seat_black g p u, Black, p))"
      "\<not> strict_eq (white (players g)) p" "\<not> strict_eq (black (players g)) p"
      "truthy (white (players g))" "\<not> truthy (black (players g))"
  | (full) "joinGame st gid p u now = (st, None)"
  using assms joinGame_rejoin_white [of st gid g p u now]
    joinGame_rejoin_black [of st gid g p u now] joinGame_white [of st gid g p u now]
    joinGame_black [of st gid g p u now] joinGame_full [of st gid g p u now]
  by blast

text \<open>The storage the join branch leaves is the one it got or the one \<open>joinGame\<close> leaves.\<close>

lemma POST_join_store:
  assumes "POST st gid (Join p u) now = Some (r, st1)"
  shows "st1 = st \<or> (\<exists>name. st1 = fst (joinGame st gid p name now))"
proof (cases u)
  case (Str name)
  with assms show ?thesis
    by (auto simp: POST_def split: if_splits prod.splits option.splits) (metis fst_conv)+
qed (use assms in \<open>auto simp: POST_def split: if_splits\<close>)

subsection \<open>The move branch\<close>

lemma cell_readable: "0 \<le> r \<Longrightarrow> r < int (length b) \<Longrightarrow> \<exists>x. cell b r c = Inr x"
  by (simp add: cell_def)

lemma spread_move:
  "spread g (no_updates\<lparr>u_board := Some nb, u_turn := Some t\<rparr>) = g\<lparr>board := nb, turn := t\<rparr>"
  by (cases g) (simp add: spread_def no_updates_def)

lemma updateGame_move:
  "st gid = Some g \<Longrightarrow>
     updateGame st gid (no_updates\<lparr>u_board := Some nb, u_turn := Some t\<rparr>) now =
       (st(gid \<mapsto> g\<lparr>board := nb, turn := t, lastMove := now\<rparr>),
        Some (g\<lparr>board := nb, turn := t, lastMove := now\<rparr>))"
  by (simp add: updateGame_def getGame_def spread_move Let_def)

lemma isValidMove_true_rows:
  assumes "isValidMove b from to tn = Some (Inr True)"
  shows "0 \<le> row from \<and> row from < int (length b) \<and> 0 \<le> row to \<and> row to < int (length b)"
proof -
  have f: "0 \<le> row from \<and> row from < int (length b)"
    using assms by (auto simp: isValidMove_def cell_def split: if_splits)
  then obtain x where x: "cell b (row from) (col from) = Inr x"
    using cell_readable by blast
  with assms obtain piece where p: "x = Some piece" "color piece = tn"
    and rng: "\<not> (row to < 0 \<or> row to > 7 \<or> col to < 0 \<or> col to > 7)"
    by (cases x) (auto simp: isValidMove_def split: if_splits)
  have "cell b (row to) (col to) \<noteq> Inl TypeError"
    using assms x p rng
    by (auto simp: isValidMove_def split: if_splits sum.splits)
  then have "0 \<le> row to \<and> row to < int (length b)"
    by (auto simp: cell_def split: if_splits)
  with f show ?thesis by simp
qed

lemma makeMove_defined:
  assumes "0 \<le> row from" "row from < int (length b)" "0 \<le> row to" "row to < int (length b)"
  shows "\<exists>nb. makeMove b from to = Inr nb"
proof -
  obtain x where "cell b (row from) (col from) = Inr x"
    using assms cell_readable by blast
  with assms show ?thesis by (simp add: makeMove_def Let_def)
qed



lemma POST_move_applied:
  "st gid = Some g \<Longrightarrow> playerColor g p = Some (turn g) \<Longrightarrow>
   isValidMove (board g) from to (turn g) = Some (Inr True) \<Longrightarrow>
   makeMove (board g) from to = Inr nb \<Longrightarrow>
     POST st gid (Move p from to) now =
       Some (Inr (Json_game (Some (moved g nb now))), st(gid \<mapsto> moved g nb now))"
  by (simp add: POST_def getGame_def updateGame_move moved_def Let_def)

lemma playerColor_slots:
  "(playerColor g p = None \<longleftrightarrow>
      \<not> strict_eq (white (players g)) p \<and> \<not> strict_eq (black (players g)) p) \<and>
   (playerColor g p = Some White \<longleftrightarrow> strict_eq (white (players g)) p) \<and>
   (playerColor g p = Some Black \<longleftrightarrow>
      \<not> strict_eq (white (players g)) p \<and> strict_eq (black (players g)) p)"
  by (simp add: playerColor_def)


lemma makeMove_e4:
  "makeMove initialBoard \<lparr>row = 6, col = 4\<rparr> \<lparr>row = 4, col = 4\<rparr> = Inr board_e4"
  by (simp add: makeMove_def cell_def js_set_def initialBoard_def board_e4_def Let_def)

subsection \<open>Status and winner along a history\<close>

lemma not_blank_examples: "\<not> blank ''Alice''" "\<not> blank ''Bob''" "\<not> blank ''Carol''" "\<not> blank ''Anon''"
  by (simp_all add: blank_def)

lemma truthy_Str: "truthy (Str s) \<longleftrightarrow> s \<noteq> []"
  by (simp add: truthy_def)

lemma run_snoc: "run (calls @ [c]) = after (run calls) c"
  by (simp add: run_def)

lemma settled_upd:
  "settled st \<Longrightarrow> (status g = Waiting \<or> status g = Active) \<and> winner g = None \<Longrightarrow>
     settled (st(gid \<mapsto> g))"
  by (simp add: settled_def)

lemma settled_joinGame:
  assumes "settled st"
  shows "settled (fst (joinGame st gid p u now))"
proof (cases "st gid")
  case None
  with assms show ?thesis by (simp add: joinGame_absent)
next
  case (Some g)
  then have g: "(status g = Waiting \<or> status g = Active) \<and> winner g = None"
    using assms by (simp add: settled_def)
  from Some show ?thesis
  proof (cases rule: joinGame_cases [where p = p and u = u and now = now])
    case (rejoin c)
    with assms show ?thesis by simp
  next
    case white
    with assms g show ?thesis by (simp add: settled_upd seat_white_def)
  next
    case black
    with assms g show ?thesis by (simp add: settled_upd seat_black_def)
  next
    case full
    with assms show ?thesis by simp
  qed
qed

lemma settled_POST:
  assumes "settled st" and "POST st gid body now = Some (r, st1)"
  shows "settled st1"
proof (cases body)
  case (Join p u)
  with assms(2) POST_join_store [of st gid p u now r st1] assms(1) settled_joinGame [OF assms(1)]
  show ?thesis by auto
next
  case (Move p "from" to)
  show ?thesis
  proof (cases "st gid")
    case None
    with assms Move show ?thesis by (simp add: POST_def getGame_def)
  next
    case (Some g)
    then have g: "(status g = Waiting \<or> status g = Active) \<and> winner g = None"
      using assms by (simp add: settled_def)
    have "st1 = st \<or> (\<exists>nb. st1 = st(gid \<mapsto> moved g nb now))"
      using assms(2) Move Some
      by (auto simp: POST_def getGame_def updateGame_move moved_def Let_def
          split: if_splits option.splits sum.splits)
    with assms(1) g show ?thesis
      by (auto simp: settled_upd moved_def)
  qed
next
  case Other
  with assms show ?thesis by (simp add: POST_def)
qed

lemma settled_after: "settled st \<Longrightarrow> settled (after st c)"
proof (cases c)
  case (Create gid now)
  assume "settled st"
  with Create show ?thesis
    by (simp add: after_def POST_create_def createGame_def Let_def settled_upd)
next
  case (Request gid body now)
  assume "settled st"
  with Request settled_POST [of st gid body now] show ?thesis
    by (auto simp: after_def split: option.splits)
qed

lemma settled_run: "settled (run calls)"
proof (induction calls rule: rev_induct)
  case Nil
  show ?case by (simp add: run_def settled_def)
next
  case (snoc c calls)
  then show ?case by (simp add: run_snoc settled_after)
qed

subsection \<open>Example histories\<close>

lemma after_create: "after st (Create gid now) = fst (createGame st gid now)"
  by (simp add: after_def POST_create_def split: prod.splits)

lemma after_join:
  "\<not> blank u \<Longrightarrow>
     after st (Request gid (Join p (Str u)) now) = fst (joinGame st gid p u now)"
  by (cases u) (auto simp: after_def POST_def blank_def truthy_def split: prod.splits option.splits)


lemma run_example_anon:
  "run [Create ''g1'' 0, Request ''g1'' (Join (Str ''p1'') (Str ''Alice'')) 1,
        Request ''g1'' (Join (Str []) (Str ''Bob'')) 2] = [''g1'' \<mapsto> game_anon]"
proof -
  have "run [Create ''g1'' 0, Request ''g1'' (Join (Str ''p1'') (Str ''Alice'')) 1,
        Request ''g1'' (Join (Str []) (Str ''Bob'')) 2] = fst (joinGame store_one ''g1'' (Str []) ''Bob'' 2)"
    by (simp add: run_def after_create after_join not_blank_examples
        store_one_def store_created_def)
  also have "\<dots> = [''g1'' \<mapsto> game_anon]"
    by (simp add: store_one_eq joinGame_def getGame_def strict_eq_def truthy_def updateGame_all_fields
        game_one_def game_anon_def Let_def)
  finally show ?thesis .
qed

lemma run_example_evicted:
  "run [Create ''g1'' 0, Request ''g1'' (Join (Str []) (Str ''Anon'')) 1,
        Request ''g1'' (Join (Str ''p2'') (Str ''Bob'')) 2] = [''g1'' \<mapsto> game_evicted]"
proof -
  have "run [Create ''g1'' 0, Request ''g1'' (Join (Str []) (Str ''Anon'')) 1,
        Request ''g1'' (Join (Str ''p2'') (Str ''Bob'')) 2] =
      fst (joinGame (fst (joinGame store_created ''g1'' (Str []) ''Anon'' 1)) ''g1'' (Str ''p2'') ''Bob'' 2)"
    by (simp add: run_def after_create after_join not_blank_examples store_created_def)
  also have "\<dots> = [''g1'' \<mapsto> game_evicted]"
    by (simp add: store_created_eq joinGame_def getGame_def strict_eq_def truthy_def updateGame_all_fields
        game_created_def game_evicted_def Let_def)
  finally show ?thesis .
qed

subsection \<open>Stored boards along a history\<close>







subsection \<open>Player slots along a history\<close>






subsection \<open>The move branch for a string identifier\<close>





section \<open>Claims\<close>

text \<open>
  C1, evaluated. \<^verbatim>\<open>joinGame\<close> returns \<^verbatim>\<open>null\<close> for a session that is not stored and for a
  session whose two slots are taken by others, and the join branch answers "Game is full"
  (status 400) to both; the \<^verbatim>\<open>GET\<close> handler and the move branch answer "Game not found"
  (status 404) for the same missing session.
\<close>

theorem join_absent_reported_full:
  "joinGame Map.empty ''g1'' (Str ''p1'') ''Alice'' 1 = (Map.empty, None) \<and>
   joinGame store_two ''g1'' (Str ''p3'') ''Carol'' 3 = (store_two, None) \<and>
   POST Map.empty ''g1'' (Join (Str ''p1'') (Str ''Alice'')) 1 =
     Some (Inr (Json_error ''Game is full'' 400), Map.empty) \<and>
   POST store_two ''g1'' (Join (Str ''p3'') (Str ''Carol'')) 3 =
     Some (Inr (Json_error ''Game is full'' 400), store_two) \<and>
   GET Map.empty ''g1'' = Json_error ''Game not found'' 404 \<and>
   POST Map.empty ''g1'' (Move (Str ''p1'') \<lparr>row = 6, col = 4\<rparr> \<lparr>row = 4, col = 4\<rparr>) 1 =
     Some (Inr (Json_error ''Game not found'' 404), Map.empty)"
proof -
  have a: "joinGame Map.empty ''g1'' (Str ''p1'') ''Alice'' 1 = (Map.empty, None)"
    by (simp add: joinGame_absent)
  have f: "joinGame store_two ''g1'' (Str ''p3'') ''Carol'' 3 = (store_two, None)"
    by (rule joinGame_full [where g = game_two])
       (simp_all add: store_two_eq game_two_def strict_eq_def truthy_def)
  show ?thesis
    using a f by (simp add: POST_def GET_def getGame_def not_blank_examples truthy_def)
qed




text \<open>
  C3. \<^verbatim>\<open>isValidMove\<close> returns \<^verbatim>\<open>false\<close>, and does not throw, whenever the \<open>from\<close> square is
  empty, or holds a piece that is not of the colour to move, or the \<open>to\<close> square lies
  outside \<open>[0,7] \<times> [0,7]\<close>, or the \<open>to\<close> square holds a piece of the mover's own colour;
  and on the empty board it returns \<^verbatim>\<open>false\<close> for every \<open>to\<close> outside \<open>[0,7] \<times> [0,7]\<close>.
  The content of a square is what \<open>cell\<close> reads there, on any board; on an 8 by 8 board
  every \<open>from\<close> square can be read, so a \<open>to\<close> outside the board always gives \<^verbatim>\<open>false\<close>.
\<close>

theorem isValidMove_rejects:
  "(cell b (row from) (col from) = Inr None \<longrightarrow>
      isValidMove b from to tn = Some (Inr False)) \<and>
   (cell b (row from) (col from) = Inr (Some p) \<and> color p \<noteq> tn \<longrightarrow>
      isValidMove b from to tn = Some (Inr False)) \<and>
   (cell b (row from) (col from) = Inr x \<and> \<not> on_board to \<longrightarrow>
      isValidMove b from to tn = Some (Inr False)) \<and>
   (cell b (row from) (col from) = Inr (Some p) \<and>
    cell b (row to) (col to) = Inr (Some q) \<and> color q = color p \<longrightarrow>
      isValidMove b from to tn = Some (Inr False)) \<and>
   (wf_board b \<and> on_board from \<and> \<not> on_board to \<longrightarrow>
      isValidMove b from to tn = Some (Inr False)) \<and>
   (on_board from \<and> \<not> on_board to \<longrightarrow>
      isValidMove emptyBoard from to tn = Some (Inr False))"
proof -
  have "isValidMove b from to tn = Some (Inr False)"
    if "wf_board b" "on_board from" "\<not> on_board to"
    using that cell_on_board [of b "from"] isValidMove_off_board [of b "from" _ to tn]
    by simp
  then show ?thesis
    using isValidMove_from_empty isValidMove_wrong_colour isValidMove_off_board
      isValidMove_self_capture cell_emptyBoard
    by (simp add: on_board_def)
qed

theorem isValidMove_rejects_witness:
  "isValidMove initialBoard \<lparr>row = 4, col = 4\<rparr> \<lparr>row = 3, col = 4\<rparr> White = Some (Inr False) \<and>
   isValidMove initialBoard \<lparr>row = 6, col = 4\<rparr> \<lparr>row = 5, col = 4\<rparr> Black = Some (Inr False) \<and>
   isValidMove initialBoard \<lparr>row = 6, col = 4\<rparr> \<lparr>row = 5, col = 8\<rparr> White = Some (Inr False) \<and>
   isValidMove initialBoard \<lparr>row = 7, col = 0\<rparr> \<lparr>row = 6, col = 0\<rparr> White = Some (Inr False) \<and>
   isValidMove emptyBoard \<lparr>row = 0, col = 0\<rparr> \<lparr>row = -1, col = 0\<rparr> White = Some (Inr False)"
proof -
  have c44: "cell initialBoard 4 4 = Inr None"
    and c64: "cell initialBoard 6 4 = Inr (Some \<lparr>ptype = Pawn, color = White\<rparr>)"
    and c70: "cell initialBoard 7 0 = Inr (Some \<lparr>ptype = Rook, color = White\<rparr>)"
    and c60: "cell initialBoard 6 0 = Inr (Some \<lparr>ptype = Pawn, color = White\<rparr>)"
    by (simp_all add: cell_def initialBoard_def mk_def)
  show ?thesis
    using isValidMove_rejects [where b = initialBoard and ?from = "\<lparr>row = 4, col = 4\<rparr>"
        and ?to = "\<lparr>row = 3, col = 4\<rparr>" and tn = White]
      isValidMove_rejects [where b = initialBoard and ?from = "\<lparr>row = 6, col = 4\<rparr>"
        and ?to = "\<lparr>row = 5, col = 4\<rparr>" and tn = Black
        and p = "\<lparr>ptype = Pawn, color = White\<rparr>"]
      isValidMove_rejects [where b = initialBoard and ?from = "\<lparr>row = 6, col = 4\<rparr>"
        and ?to = "\<lparr>row = 5, col = 8\<rparr>" and tn = White
        and x = "Some \<lparr>ptype = Pawn, color = White\<rparr>"]
      isValidMove_rejects [where b = initialBoard and ?from = "\<lparr>row = 7, col = 0\<rparr>"
        and ?to = "\<lparr>row = 6, col = 0\<rparr>" and tn = White
        and p = "\<lparr>ptype = Rook, color = White\<rparr>" and q = "\<lparr>ptype = Pawn, color = White\<rparr>"]
      isValidMove_rejects [where ?from = "\<lparr>row = 0, col = 0\<rparr>"
        and ?to = "\<lparr>row = -1, col = 0\<rparr>" and tn = White]
      c44 c64 c70 c60
    by (simp add: on_board_def)
qed

text \<open>
  C4. For a pawn of either colour standing on a square of the board, \<^verbatim>\<open>isValidMove\<close> (asked
  for the pawn's colour) accepts exactly the destinations on the board that the
  specification's pawn rule \<open>spec_pawn_move\<close> allows: one square straight forward onto an
  empty square, two squares straight forward from the home rank onto an empty square with
  the square between empty, one square diagonally forward onto an opposing piece.
  For a pawn on its home rank with the two squares ahead empty, \<^verbatim>\<open>getValidMoves\<close> returns a
  list that holds both advances, whose only other members are diagonal-forward squares
  holding an opposing piece, and that holds no empty square off the pawn's file.
\<close>

theorem pawn_rule:
  "(wf_board b \<and> on_board from \<and> piece_at b from = Some \<lparr>ptype = Pawn, color = c\<rparr> \<longrightarrow>
      isValidMove b from to c = Some (Inr (on_board to \<and> spec_pawn_move b from to c))) \<and>
   (wf_board b \<and> on_board from \<and> piece_at b from = Some \<lparr>ptype = Pawn, color = c\<rparr> \<and>
    row from = pawn_home c \<and> piece_at b (advance from c 1) = None \<and> piece_at b (advance from c 2) = None \<longrightarrow>
      (\<exists>ms. getValidMoves b from c = Some (Inr ms) \<and>
            advance from c 1 \<in> set ms \<and> advance from c 2 \<in> set ms \<and>
            (\<forall>sq. sq \<in> set ms \<longleftrightarrow>
                    sq = advance from c 1 \<or> sq = advance from c 2 \<or>
                    (on_board sq \<and> \<bar>col sq - col from\<bar> = 1 \<and>
                     row sq = row from + pawn_forward c \<and>
                     (case piece_at b sq of Some q \<Rightarrow> color q \<noteq> c | None \<Rightarrow> False))) \<and>
            (\<forall>sq. col sq \<noteq> col from \<and> piece_at b sq = None \<longrightarrow> sq \<notin> set ms)))"
proof (intro conjI impI)
  assume "wf_board b \<and> on_board from \<and> piece_at b from = Some \<lparr>ptype = Pawn, color = c\<rparr>"
  then show "isValidMove b from to c = Some (Inr (on_board to \<and> spec_pawn_move b from to c))"
    using pawn_isValidMove by blast
next
  assume a: "wf_board b \<and> on_board from \<and> piece_at b from = Some \<lparr>ptype = Pawn, color = c\<rparr> \<and>
    row from = pawn_home c \<and> piece_at b (advance from c 1) = None \<and> piece_at b (advance from c 2) = None"
  define ms where "ms = filter (\<lambda>to. on_board to \<and> spec_pawn_move b from to c) squares"
  have gv: "getValidMoves b from c = Some (Inr ms)"
    using a getValidMoves_pawn unfolding ms_def by blast
  have mem: "sq \<in> set ms \<longleftrightarrow> on_board sq \<and> spec_pawn_move b from sq c" for sq
    by (auto simp: ms_def set_squares)
  have ob1: "on_board (advance from c 1)" and ob2: "on_board (advance from c 2)"
    using a by (auto simp: on_board_def advance_def pawn_home_def pawn_forward_def)
  have one: "advance from c 1 \<in> set ms"
    using a ob1 by (auto simp: mem spec_pawn_move_def advance_def)
  have two: "advance from c 2 \<in> set ms"
    using a ob2 by (auto simp: mem spec_pawn_move_def advance_def)
  have char: "sq \<in> set ms \<longleftrightarrow>
        sq = advance from c 1 \<or> sq = advance from c 2 \<or>
        (on_board sq \<and> \<bar>col sq - col from\<bar> = 1 \<and> row sq = row from + pawn_forward c \<and>
         (case piece_at b sq of Some q \<Rightarrow> color q \<noteq> c | None \<Rightarrow> False))" for sq
  proof
    assume "sq \<in> set ms"
    then have "on_board sq" and "spec_pawn_move b from sq c" by (simp_all add: mem)
    then show "sq = advance from c 1 \<or> sq = advance from c 2 \<or>
        (on_board sq \<and> \<bar>col sq - col from\<bar> = 1 \<and> row sq = row from + pawn_forward c \<and>
         (case piece_at b sq of Some q \<Rightarrow> color q \<noteq> c | None \<Rightarrow> False))"
      by (auto simp: spec_pawn_move_def advance_def position_eq)
  next
    assume "sq = advance from c 1 \<or> sq = advance from c 2 \<or>
        (on_board sq \<and> \<bar>col sq - col from\<bar> = 1 \<and> row sq = row from + pawn_forward c \<and>
         (case piece_at b sq of Some q \<Rightarrow> color q \<noteq> c | None \<Rightarrow> False))"
    then show "sq \<in> set ms"
      using one two by (auto simp: mem spec_pawn_move_def)
  qed
  have diag: "col sq \<noteq> col from \<and> piece_at b sq = None \<longrightarrow> sq \<notin> set ms" for sq
    by (auto simp: char advance_def)
  from gv one two char diag
  show "\<exists>ms. getValidMoves b from c = Some (Inr ms) \<and>
            advance from c 1 \<in> set ms \<and> advance from c 2 \<in> set ms \<and>
            (\<forall>sq. sq \<in> set ms \<longleftrightarrow>
                    sq = advance from c 1 \<or> sq = advance from c 2 \<or>
                    (on_board sq \<and> \<bar>col sq - col from\<bar> = 1 \<and>
                     row sq = row from + pawn_forward c \<and>
                     (case piece_at b sq of Some q \<Rightarrow> color q \<noteq> c | None \<Rightarrow> False))) \<and>
            (\<forall>sq. col sq \<noteq> col from \<and> piece_at b sq = None \<longrightarrow> sq \<notin> set ms)"
    by blast
qed


theorem pawn_rule_witness:
  "isValidMove initialBoard \<lparr>row = 6, col = 4\<rparr> \<lparr>row = 4, col = 4\<rparr> White = Some (Inr True) \<and>
   isValidMove initialBoard \<lparr>row = 6, col = 4\<rparr> \<lparr>row = 5, col = 3\<rparr> White = Some (Inr False) \<and>
   (\<exists>ms. getValidMoves initialBoard \<lparr>row = 6, col = 4\<rparr> White = Some (Inr ms) \<and>
         \<lparr>row = 5, col = 4\<rparr> \<in> set ms \<and> \<lparr>row = 4, col = 4\<rparr> \<in> set ms \<and>
         \<lparr>row = 5, col = 3\<rparr> \<notin> set ms \<and> \<lparr>row = 5, col = 5\<rparr> \<notin> set ms)"
proof -
  let ?from = "\<lparr>row = 6, col = 4\<rparr>"
  have pre: "wf_board initialBoard \<and> on_board ?from \<and>
      piece_at initialBoard ?from = Some \<lparr>ptype = Pawn, color = White\<rparr> \<and>
      row ?from = pawn_home White \<and> piece_at initialBoard (advance ?from White 1) = None \<and>
      piece_at initialBoard (advance ?from White 2) = None"
    by (simp add: wf_initialBoard on_board_def pawn_home_def advance_def pawn_forward_def)
       (simp add: piece_at_def initialBoard_def mk_def)
  have e: "piece_at initialBoard \<lparr>row = 4, col = 4\<rparr> = None" "piece_at initialBoard \<lparr>row = 5, col = 4\<rparr> = None"
    "piece_at initialBoard \<lparr>row = 5, col = 3\<rparr> = None" "piece_at initialBoard \<lparr>row = 5, col = 5\<rparr> = None"
    by (simp_all add: piece_at_def initialBoard_def)
  have v1: "isValidMove initialBoard ?from \<lparr>row = 4, col = 4\<rparr> White = Some (Inr True)"
    using pawn_rule [where b = initialBoard and ?from = ?from and c = White
        and ?to = "\<lparr>row = 4, col = 4\<rparr>"] pre e
    by (simp add: on_board_def spec_pawn_move_def pawn_forward_def pawn_home_def)
  have v2: "isValidMove initialBoard ?from \<lparr>row = 5, col = 3\<rparr> White = Some (Inr False)"
    using pawn_rule [where b = initialBoard and ?from = ?from and c = White
        and ?to = "\<lparr>row = 5, col = 3\<rparr>"] pre e
    by (simp add: on_board_def spec_pawn_move_def pawn_forward_def pawn_home_def)
  from pawn_rule [where b = initialBoard and ?from = ?from and c = White] pre
  obtain ms where ms: "getValidMoves initialBoard ?from White = Some (Inr ms)"
      "advance ?from White 1 \<in> set ms" "advance ?from White 2 \<in> set ms"
      "\<forall>sq. col sq \<noteq> col ?from \<and> piece_at initialBoard sq = None \<longrightarrow> sq \<notin> set ms"
    by blast
  have "\<lparr>row = 5, col = 3\<rparr> \<notin> set ms" "\<lparr>row = 5, col = 5\<rparr> \<notin> set ms"
    using ms(4) e by simp_all
  moreover have "\<lparr>row = 5, col = 4\<rparr> \<in> set ms" "\<lparr>row = 4, col = 4\<rparr> \<in> set ms"
    using ms(2,3) by (simp_all add: advance_def pawn_forward_def)
  ultimately show ?thesis using v1 v2 ms(1) by blast
qed

text \<open>
  C5. For a rook, bishop or queen standing on a square of the board, \<^verbatim>\<open>isValidMove\<close> returns
  \<^verbatim>\<open>true\<close> only if every square strictly between \<open>from\<close> and \<open>to\<close> is empty, and returns
  \<^verbatim>\<open>false\<close> as soon as one of these squares is occupied, whatever the destination
  holds. In particular a rook at \<open>{7,0}\<close> with any piece at \<open>{7,3}\<close> cannot move to \<open>{7,5}\<close>.
\<close>

theorem sliding_needs_clear_path:
  "(wf_board b \<and> on_board from \<and> piece_at b from = Some piece \<and>
    (ptype piece = Rook \<or> ptype piece = Bishop \<or> ptype piece = Queen) \<longrightarrow>
      (isValidMove b from to tn = Some (Inr True) \<longrightarrow>
         list_all (empty_at b) (between from to)) \<and>
      (sq \<in> set (between from to) \<and> \<not> empty_at b sq \<longrightarrow>
         isValidMove b from to tn = Some (Inr False))) \<and>
   (wf_board b \<and> piece_at b \<lparr>row = 7, col = 0\<rparr> = Some \<lparr>ptype = Rook, color = c\<rparr> \<and>
    piece_at b \<lparr>row = 7, col = 3\<rparr> = Some q \<longrightarrow>
      isValidMove b \<lparr>row = 7, col = 0\<rparr> \<lparr>row = 7, col = 5\<rparr> tn = Some (Inr False))"
proof (intro conjI impI)
  assume a: "wf_board b \<and> on_board from \<and> piece_at b from = Some piece \<and>
    (ptype piece = Rook \<or> ptype piece = Bishop \<or> ptype piece = Queen)"
  assume "isValidMove b from to tn = Some (Inr True)"
  with a sliding_isValidMove [of b "from" piece to tn]
  show "list_all (empty_at b) (between from to)" by simp
next
  assume a: "wf_board b \<and> on_board from \<and> piece_at b from = Some piece \<and>
    (ptype piece = Rook \<or> ptype piece = Bishop \<or> ptype piece = Queen)"
  assume "sq \<in> set (between from to) \<and> \<not> empty_at b sq"
  then have "\<not> list_all (empty_at b) (between from to)"
    by (auto simp: list_all_iff)
  with a sliding_isValidMove [of b "from" piece to tn]
  show "isValidMove b from to tn = Some (Inr False)" by simp
next
  let ?from = "\<lparr>row = 7, col = 0\<rparr>" and ?to = "\<lparr>row = 7, col = 5\<rparr>"
  assume a: "wf_board b \<and> piece_at b ?from = Some \<lparr>ptype = Rook, color = c\<rparr> \<and>
    piece_at b \<lparr>row = 7, col = 3\<rparr> = Some q"
  have btw: "between ?from ?to = [\<lparr>row = 7, col = 1\<rparr>, \<lparr>row = 7, col = 2\<rparr>,
       \<lparr>row = 7, col = 3\<rparr>, \<lparr>row = 7, col = 4\<rparr>]"
    by (simp add: between_def dist_def upto.simps)
  have "cell b 7 3 = Inr (Some q)"
    using a cell_on_board [of b "\<lparr>row = 7, col = 3\<rparr>"] by (simp add: on_board_def)
  then have "\<not> list_all (empty_at b) (between ?from ?to)"
    by (simp add: btw empty_at_def)
  with a sliding_isValidMove [of b ?from "\<lparr>ptype = Rook, color = c\<rparr>" ?to tn]
  show "isValidMove b ?from ?to tn = Some (Inr False)"
    by (simp add: on_board_def)
qed

theorem sliding_needs_clear_path_witness:
  "isValidMove blocked_rank \<lparr>row = 7, col = 0\<rparr> \<lparr>row = 7, col = 5\<rparr> White = Some (Inr False) \<and>
   isValidMove blocked_rank \<lparr>row = 7, col = 0\<rparr> \<lparr>row = 7, col = 4\<rparr> White = Some (Inr False) \<and>
   list_all (empty_at blocked_rank) (between \<lparr>row = 7, col = 0\<rparr> \<lparr>row = 7, col = 2\<rparr>)"
proof -
  let ?from = "\<lparr>row = 7, col = 0\<rparr>"
  have wf: "wf_board blocked_rank"
    by (simp add: wf_board_def blocked_rank_def list_all_iff)
  have r: "piece_at blocked_rank ?from = Some \<lparr>ptype = Rook, color = White\<rparr>"
    and k: "piece_at blocked_rank \<lparr>row = 7, col = 3\<rparr> = Some \<lparr>ptype = Knight, color = Black\<rparr>"
    by (simp_all add: piece_at_def blocked_rank_def mk_def nth_append)
  have mv: "isValidMove blocked_rank ?from \<lparr>row = 7, col = 2\<rparr> White = Some (Inr True)"
    by code_simp
  have btw: "\<lparr>row = 7, col = 3\<rparr> \<in> set (between ?from \<lparr>row = 7, col = 4\<rparr>)"
    by (simp add: between_def dist_def upto.simps)
  have occ: "\<not> empty_at blocked_rank \<lparr>row = 7, col = 3\<rparr>"
    using cell_on_board [OF wf, of "\<lparr>row = 7, col = 3\<rparr>"] k
    by (simp add: empty_at_def on_board_def)
  note inst = sliding_needs_clear_path [where b = blocked_rank and ?from = ?from
      and piece = "\<lparr>ptype = Rook, color = White\<rparr>" and tn = White and c = White
      and q = "\<lparr>ptype = Knight, color = Black\<rparr>" and sq = "\<lparr>row = 7, col = 3\<rparr>"]
  show ?thesis
    using inst [where ?to = "\<lparr>row = 7, col = 4\<rparr>"] inst [where ?to = "\<lparr>row = 7, col = 2\<rparr>"]
      wf r k mv btw occ
    by (simp add: on_board_def)
qed

text \<open>
  C6, as amended. For an 8 by 8 board held in row arrays and squares \<open>from\<close> and \<open>to\<close> of the
  board, \<^verbatim>\<open>makeMove\<close> returns a board of fresh row arrays and writes into no array that
  existed before, so the input board reads as before. In the result the \<open>from\<close> square is
  empty, the \<open>to\<close> square holds what the input's \<open>from\<close> square held when \<open>to\<close> differs from
  \<open>from\<close>, and every other square is as in the input. The result is the board the
  value-level \<open>makeMove\<close> computes, and calling \<^verbatim>\<open>makeMove\<close> again with the same arguments
  gives a board with the same content.
\<close>

theorem makeMove_frame:
  "valid_ref h rows \<and> wf_board (deref h rows) \<and> on_board from \<and> on_board to \<longrightarrow>
     (\<exists>h' nb. makeMove_heap h rows from to = Inr (h', nb) \<and>
        deref h' rows = deref h rows \<and> (\<forall>a<length h. h' ! a = h ! a) \<and>
        makeMove (deref h rows) from to = Inr (deref h' nb) \<and>
        piece_at (deref h' nb) from = None \<and>
        (from \<noteq> to \<longrightarrow> piece_at (deref h' nb) to = piece_at (deref h rows) from) \<and>
        (\<forall>sq. on_board sq \<and> sq \<noteq> from \<and> sq \<noteq> to \<longrightarrow>
           piece_at (deref h' nb) sq = piece_at (deref h rows) sq) \<and>
        (\<exists>h2 nb2. makeMove_heap h' rows from to = Inr (h2, nb2) \<and>
           deref h2 nb2 = deref h' nb))"
proof
  assume a: "valid_ref h rows \<and> wf_board (deref h rows) \<and> on_board from \<and> on_board to"
  then have v: "valid_ref h rows" and wf: "wf_board (deref h rows)"
    and f: "on_board from" and t: "on_board to" by simp_all
  from makeMove_at [OF wf f t] obtain b2 where
    mm: "makeMove (deref h rows) from to = Inr b2" and
    sqs: "\<forall>sq. on_board sq \<longrightarrow>
       piece_at b2 sq = (if sq = from then None else if sq = to then piece_at (deref h rows) from
                   else piece_at (deref h rows) sq)"
    by blast
  from makeMove_heap_refines [OF v, of "from" to] mm
  obtain h' nb where hp: "makeMove_heap h rows from to = Inr (h', nb)"
    and d: "deref h' nb = b2" and le: "length h \<le> length h'"
    and old: "\<forall>a<length h. h' ! a = h ! a"
    by (cases "makeMove_heap h rows from to") auto
  have same: "deref h' rows = deref h rows"
    using v le old by (rule deref_old)
  have v': "valid_ref h' rows"
    using v le by (auto simp: valid_ref_def list_all_iff)
  from makeMove_heap_refines [OF v', of "from" to] mm same
  obtain h2 nb2 where again: "makeMove_heap h' rows from to = Inr (h2, nb2)"
    and d2: "deref h2 nb2 = b2"
    by (cases "makeMove_heap h' rows from to") auto
  have "piece_at (deref h' nb) from = None"
    using sqs f d by simp
  moreover have "from \<noteq> to \<longrightarrow> piece_at (deref h' nb) to = piece_at (deref h rows) from"
    using sqs t d by auto
  moreover have "\<forall>sq. on_board sq \<and> sq \<noteq> from \<and> sq \<noteq> to \<longrightarrow>
      piece_at (deref h' nb) sq = piece_at (deref h rows) sq"
    using sqs d by simp
  ultimately show "\<exists>h' nb. makeMove_heap h rows from to = Inr (h', nb) \<and>
        deref h' rows = deref h rows \<and> (\<forall>a<length h. h' ! a = h ! a) \<and>
        makeMove (deref h rows) from to = Inr (deref h' nb) \<and>
        piece_at (deref h' nb) from = None \<and>
        (from \<noteq> to \<longrightarrow> piece_at (deref h' nb) to = piece_at (deref h rows) from) \<and>
        (\<forall>sq. on_board sq \<and> sq \<noteq> from \<and> sq \<noteq> to \<longrightarrow>
           piece_at (deref h' nb) sq = piece_at (deref h rows) sq) \<and>
        (\<exists>h2 nb2. makeMove_heap h' rows from to = Inr (h2, nb2) \<and>
           deref h2 nb2 = deref h' nb)"
    using hp same old mm d again d2 by blast
qed

theorem makeMove_frame_witness:
  "map_sum id (\<lambda>(h', nb). (deref h' [0, 1, 2, 3, 4, 5, 6, 7], deref h' nb))
     (makeMove_heap initialBoard [0, 1, 2, 3, 4, 5, 6, 7]
        \<lparr>row = 6, col = 4\<rparr> \<lparr>row = 4, col = 4\<rparr>) =
   Inr (initialBoard, board_e4)"
proof -
  have d: "deref initialBoard [0, 1, 2, 3, 4, 5, 6, 7] = initialBoard"
    by (simp add: deref_def initialBoard_def)
  have v: "valid_ref initialBoard [0, 1, 2, 3, 4, 5, 6, 7]"
    by (simp add: valid_ref_def initialBoard_def)
  from makeMove_frame [where h = initialBoard and rows = "[0, 1, 2, 3, 4, 5, 6, 7]"
      and ?from = "\<lparr>row = 6, col = 4\<rparr>" and ?to = "\<lparr>row = 4, col = 4\<rparr>"]
    d v wf_initialBoard
  obtain h' nb where
    "makeMove_heap initialBoard [0, 1, 2, 3, 4, 5, 6, 7]
        \<lparr>row = 6, col = 4\<rparr> \<lparr>row = 4, col = 4\<rparr> = Inr (h', nb)"
    "deref h' [0, 1, 2, 3, 4, 5, 6, 7] = initialBoard"
    "makeMove initialBoard \<lparr>row = 6, col = 4\<rparr> \<lparr>row = 4, col = 4\<rparr> = Inr (deref h' nb)"
    by (auto simp: on_board_def)
  then show ?thesis using makeMove_e4 by simp
qed

text \<open>
  The claim as first stated wants the \<open>to\<close> square to hold the moved piece and the \<open>from\<close>
  square to be empty for every pair of squares. With \<open>from = to = {0,0}\<close> on the initial
  board the second assignment clears the square the first one wrote: the \<open>to\<close> square ends
  empty, and the input's \<open>from\<close> square held the black rook.
\<close>

theorem makeMove_same_square_clears:
  "on_board \<lparr>row = 0, col = 0\<rparr> \<and>
   piece_at initialBoard \<lparr>row = 0, col = 0\<rparr> = Some \<lparr>ptype = Rook, color = Black\<rparr> \<and>
   map_sum id (\<lambda>nb. piece_at nb \<lparr>row = 0, col = 0\<rparr>)
     (makeMove initialBoard \<lparr>row = 0, col = 0\<rparr> \<lparr>row = 0, col = 0\<rparr>) = Inr None"
  by (simp add: on_board_def piece_at_def makeMove_def cell_def js_set_def initialBoard_def mk_def
      Let_def)

text \<open>
  C7, evaluated. \<^verbatim>\<open>joinGame\<close> recognises a seated player with \<^verbatim>\<open>===\<close> and an empty slot with
  \<^verbatim>\<open>!slot\<close>, and the two tests disagree on the empty string. After \<open>p1\<close> (Alice) and the
  player with the empty identifier (Bob) have joined, both slots are assigned and the
  session is active; a join by the same empty identifier is a rejoin of the black slot,
  yet a join by a third player \<open>p3\<close> (Carol) is not refused: \<^verbatim>\<open>!game.players.black\<close> is true,
  \<open>p3\<close> takes the black slot and the display name Bob is overwritten by Carol.
\<close>

theorem third_join_overwrites_name:
  "run [Create ''g1'' 0, Request ''g1'' (Join (Str ''p1'') (Str ''Alice'')) 1,
        Request ''g1'' (Join (Str []) (Str ''Bob'')) 2] = [''g1'' \<mapsto> game_anon] \<and>
   players game_anon = \<lparr>white = Str ''p1'', black = Str []\<rparr> \<and>
   playerNames game_anon = \<lparr>white = Some ''Alice'', black = Some ''Bob''\<rparr> \<and>
   status game_anon = Active \<and>
   joinGame [''g1'' \<mapsto> game_anon] ''g1'' (Str []) ''Bob'' 3 =
     ([''g1'' \<mapsto> game_anon], Some (game_anon, Black, Str [])) \<and>
   snd (joinGame [''g1'' \<mapsto> game_anon] ''g1'' (Str ''p3'') ''Carol'' 3) =
     Some (seat_black game_anon (Str ''p3'') ''Carol'', Black, Str ''p3'') \<and>
   map_option players
     (fst (joinGame [''g1'' \<mapsto> game_anon] ''g1'' (Str ''p3'') ''Carol'' 3) ''g1'') =
     Some \<lparr>white = Str ''p1'', black = Str ''p3''\<rparr> \<and>
   map_option playerNames
     (fst (joinGame [''g1'' \<mapsto> game_anon] ''g1'' (Str ''p3'') ''Carol'' 3) ''g1'') =
     Some \<lparr>white = Some ''Alice'', black = Some ''Carol''\<rparr>"
  using run_example_anon
  by (simp add: joinGame_def getGame_def strict_eq_def truthy_def updateGame_all_fields
      game_anon_def seat_black_def Let_def)

text \<open>
  C8, evaluated. \<^verbatim>\<open>createGame\<close> stores a waiting session with both slots \<^verbatim>\<open>null\<close>. When the
  first player joins with the empty identifier, the white slot is assigned and the
  session stays waiting; the slot still reads as unset (\<^verbatim>\<open>!game.players.white\<close>), so the
  second assignment, by the distinct player \<open>p2\<close>, fills the white slot again: the black
  slot stays unset and the session stays waiting. And a first join with the identifier
  \<^verbatim>\<open>null\<close> is answered with the colour white as a rejoin (\<^verbatim>\<open>null === null\<close>) and fills no
  slot.
\<close>

theorem second_join_takes_white:
  "run [Create ''g1'' 0] = store_created \<and> store_created ''g1'' = Some game_created \<and>
   players game_created = \<lparr>white = Null, black = Null\<rparr> \<and> status game_created = Waiting \<and>
   run [Create ''g1'' 0, Request ''g1'' (Join (Str []) (Str ''Anon'')) 1] ''g1'' =
     Some (game_created\<lparr>players := \<lparr>white = Str [], black = Null\<rparr>,
                        playerNames := \<lparr>white = Some ''Anon'', black = None\<rparr>,
                        lastMove := 1\<rparr>) \<and>
   run [Create ''g1'' 0, Request ''g1'' (Join (Str []) (Str ''Anon'')) 1,
        Request ''g1'' (Join (Str ''p2'') (Str ''Bob'')) 2] ''g1'' = Some game_evicted \<and>
   players game_evicted = \<lparr>white = Str ''p2'', black = Null\<rparr> \<and>
   status game_evicted = Waiting \<and>
   joinGame store_created ''g1'' Null ''Anon'' 1 =
     (store_created, Some (game_created, White, Null))"
proof -
  have r0: "run [Create ''g1'' 0] = store_created"
    by (simp add: run_def after_create store_created_def)
  have g0: "store_created ''g1'' = Some game_created"
    "players game_created = \<lparr>white = Null, black = Null\<rparr>" "status game_created = Waiting"
    by (simp_all add: store_created_eq game_created_def)
  have r1: "run [Create ''g1'' 0, Request ''g1'' (Join (Str []) (Str ''Anon'')) 1] =
      fst (joinGame store_created ''g1'' (Str []) ''Anon'' 1)"
    by (simp add: run_def after_create after_join not_blank_examples store_created_def)
  have r2: "fst (joinGame store_created ''g1'' (Str []) ''Anon'' 1) ''g1'' =
      Some (game_created\<lparr>players := \<lparr>white = Str [], black = Null\<rparr>,
                        playerNames := \<lparr>white = Some ''Anon'', black = None\<rparr>,
                        lastMove := 1\<rparr>)"
    by (simp add: store_created_eq joinGame_def getGame_def strict_eq_def truthy_def
        updateGame_all_fields game_created_def Let_def)
  have r3: "players game_evicted = \<lparr>white = Str ''p2'', black = Null\<rparr>"
    "status game_evicted = Waiting"
    by (simp_all add: game_evicted_def)
  have r4: "joinGame store_created ''g1'' Null ''Anon'' 1 =
      (store_created, Some (game_created, White, Null))"
    using g0 by (intro joinGame_rejoin_white) (simp_all add: strict_eq_def)
  show ?thesis
    unfolding r1 run_example_evicted using r0 g0 r2 r3 r4 by simp
qed




text \<open>
  C10. The move branch never reads the status: in a stored session that is still waiting,
  whose white slot holds the player (\<^verbatim>\<open>game.players.white === playerId\<close>) and whose turn is
  white, a move that \<^verbatim>\<open>isValidMove\<close> accepts is applied: the stored and returned session has
  the new board and black to move, and is still waiting with the same slots.
\<close>

theorem move_while_waiting:
  "st gid = Some g \<and> status g = Waiting \<and> strict_eq (white (players g)) p \<and> turn g = White \<and>
   isValidMove (board g) from to White = Some (Inr True) \<longrightarrow>
     (\<exists>nb. makeMove (board g) from to = Inr nb \<and>
           POST st gid (Move p from to) now =
             Some (Inr (Json_game (Some (moved g nb now))), st(gid \<mapsto> moved g nb now)) \<and>
           board (moved g nb now) = nb \<and> turn (moved g nb now) = Black \<and>
           status (moved g nb now) = Waiting \<and> players (moved g nb now) = players g)"
proof
  assume a: "st gid = Some g \<and> status g = Waiting \<and> strict_eq (white (players g)) p \<and>
    turn g = White \<and> isValidMove (board g) from to White = Some (Inr True)"
  then have pc: "playerColor g p = Some (turn g)"
    by (simp add: playerColor_def)
  from a obtain nb where nb: "makeMove (board g) from to = Inr nb"
    using isValidMove_true_rows makeMove_defined by blast
  have "POST st gid (Move p from to) now =
      Some (Inr (Json_game (Some (moved g nb now))), st(gid \<mapsto> moved g nb now))"
    using a pc nb POST_move_applied [of st gid g p "from" to nb now] by simp
  moreover have "board (moved g nb now) = nb \<and> turn (moved g nb now) = Black \<and>
      status (moved g nb now) = Waiting \<and> players (moved g nb now) = players g"
    using a by (simp add: moved_def)
  ultimately show "\<exists>nb. makeMove (board g) from to = Inr nb \<and>
           POST st gid (Move p from to) now =
             Some (Inr (Json_game (Some (moved g nb now))), st(gid \<mapsto> moved g nb now)) \<and>
           board (moved g nb now) = nb \<and> turn (moved g nb now) = Black \<and>
           status (moved g nb now) = Waiting \<and> players (moved g nb now) = players g"
    using nb by blast
qed

theorem move_while_waiting_witness:
  "status game_one = Waiting \<and> white (players game_one) = Str ''p1'' \<and>
   black (players game_one) = Null \<and>
   POST store_one ''g1'' (Move (Str ''p1'') \<lparr>row = 6, col = 4\<rparr> \<lparr>row = 4, col = 4\<rparr>) 7 =
     Some (Inr (Json_game (Some (moved game_one board_e4 7))),
           store_one(''g1'' \<mapsto> moved game_one board_e4 7)) \<and>
   turn (moved game_one board_e4 7) = Black \<and> status (moved game_one board_e4 7) = Waiting"
proof -
  have g: "store_one ''g1'' = Some game_one" by (simp add: store_one_eq)
  have f: "board game_one = initialBoard" "turn game_one = White" "status game_one = Waiting"
    "white (players game_one) = Str ''p1''" "black (players game_one) = Null"
    by (simp_all add: game_one_def)
  have v: "isValidMove initialBoard \<lparr>row = 6, col = 4\<rparr> \<lparr>row = 4, col = 4\<rparr> White = Some (Inr True)"
    by code_simp
  show ?thesis
    using move_while_waiting [where st = store_one and gid = "''g1''" and g = game_one
        and p = "Str ''p1''" and ?from = "\<lparr>row = 6, col = 4\<rparr>" and ?to = "\<lparr>row = 4, col = 4\<rparr>"
        and now = 7]
      g f v makeMove_e4
    by (simp add: strict_eq_def)
qed

end
